theory Spec2Isabelle
  imports Main "HOL-Library.Word"
begin

section \<open>The trampoline of spawn\_worker (src/spawn\_worker/src/trampoline.c)\<close>

text \<open>
  The program is one function, \<open>main\<close>, that talks to the operating system: it deletes
  files, writes to streams, and drives the dynamic loader. The embedding makes that
  explicit. Every call that \<open>main\<close> makes to the outside is appended to a trace of
  events, and every answer that the outside gives is read from a \<open>platform\<close>, a record
  of answer functions over which all theorems quantify.

  Conventions of the embedding:
  \<^item> a C string is the list of its characters before the terminating zero, so
    \<open>*s\<close> is non-zero exactly when the list is non-empty and \<open>strcmp\<close> is equality;
  \<^item> \<open>argv\<close> is the list of the \<open>argc\<close> argument strings, \<open>argc = length argv\<close>;
  \<^item> a C pointer that may be null is an \<open>option\<close>, \<open>None\<close> for \<open>NULL\<close>; a
    dereference of a null pointer or a store outside an array ends the run with the
    outcome \<open>Memory_fault\<close>;
  \<^item> \<open>argc\<close>, the loop counters and \<open>additional_shared_libraries_count\<close> are C
    \<open>int\<close>s that stay between 0 and \<open>argc\<close>, so they are natural numbers here;
  \<^item> \<open>calloc\<close> is taken to succeed (the array has \<open>argc - 4\<close> pointers);
  \<^item> the order in which the two arguments of \<open>fputs(dlerror(), error_fd())\<close> are
    evaluated is not fixed by C; it is a parameter of the embedding, and the theorems
    hold for both orders;
  \<^item> the two branches of \<open>#ifndef _WIN32\<close> are the two values of \<open>build\<close>: \<open>Posix\<close>
    is the program compiled without \<open>_WIN32\<close>, \<open>Win32\<close> the one compiled with it.
\<close>

subsection \<open>Data\<close>

type_synonym handle = nat
type_synonym fnptr = nat

datatype build = Posix | Win32

datatype stream = Stdout | Stderr | Log_file string

datatype event =
    is_Unlink: Unlink string
  | is_Write: Write stream string
  | is_Fopen: Fopen string
  | is_Dlopen: Dlopen string
  | is_Dlerror: Dlerror
  | is_Dlsym: Dlsym handle string
  | is_Dlclose: Dlclose "handle option"
  | is_Invoke: Invoke fnptr
  | is_LoadLibrary: LoadLibrary string
  | is_GetLastError: GetLastError
  | is_GetProcAddress: GetProcAddress handle string

text \<open>
  How a run ends: \<open>main\<close> returns an exit code; or the invoked symbol never gives control
  back (it ends the process, runs forever or faults); or \<open>main\<close> itself faults.
\<close>

datatype outcome = Exit int | No_return | Memory_fault

text \<open>
  In \<open>fputs(dlerror(), error_fd())\<close> the two argument calls are made one after the other,
  in an order that C leaves to the compiler.
\<close>

datatype argument_order = Dlerror_first | Error_fd_first

text \<open>
  The answers of the platform. \<open>p_dlopen env k path\<close> is what the call number \<open>k\<close> of
  \<open>dlopen\<close> (counted from 0 in the run) returns when it is given \<open>path\<close>: \<open>Inr h\<close> is the
  handle \<open>h\<close>, \<open>Inl text\<close> is a null result that leaves \<open>text\<close> for \<open>dlerror\<close>.
  \<open>p_unlink env k path\<close> is the return value of the call number \<open>k\<close> of \<open>unlink\<close>.
  \<open>p_log_env\<close> is \<open>getenv("DD_TRACE_LOG_FILE")\<close>, \<open>p_fopen\<close> tells whether that file
  opens for appending. \<open>p_dlsym env h name\<close> is the address of the symbol or the error
  text. \<open>p_invoke env f\<close> tells whether the call of the function at \<open>f\<close> returns.
  \<open>p_load_library\<close> and \<open>p_get_proc_address\<close> are the Windows loader, whose failures
  leave an error number for \<open>GetLastError\<close>. \<open>p_fputs_order env code\<close> is the order that
  the compiled program has at the \<open>fputs(dlerror(), error_fd())\<close> followed by
  \<open>return code\<close>: 9 is line 62, 10 is line 73.
\<close>

record platform =
  p_unlink :: "nat \<Rightarrow> string \<Rightarrow> int"
  p_log_env :: "string option"
  p_fopen :: "string \<Rightarrow> bool"
  p_dlopen :: "nat \<Rightarrow> string \<Rightarrow> string + handle"
  p_dlsym :: "handle \<Rightarrow> string \<Rightarrow> string + fnptr"
  p_invoke :: "fnptr \<Rightarrow> bool"
  p_load_library :: "nat \<Rightarrow> string \<Rightarrow> 32 word + handle"
  p_get_proc_address :: "handle \<Rightarrow> string \<Rightarrow> 32 word + fnptr"
  p_fputs_order :: "int \<Rightarrow> argument_order"

text \<open>
  The state that \<open>main\<close> threads through: the calls made so far, the text that the next
  \<open>dlerror()\<close> returns (\<open>None\<close> when no error is pending), and the number that the next
  \<open>GetLastError()\<close> returns.
\<close>

record world =
  w_trace :: "event list"
  w_dlerr :: "string option"
  w_last_error :: "32 word"

subsection \<open>The calls\<close>

definition emit :: "event \<Rightarrow> world \<Rightarrow> world" where
  "emit e w = w\<lparr>w_trace := w_trace w @ [e]\<rparr>"

definition calls :: "(event \<Rightarrow> bool) \<Rightarrow> world \<Rightarrow> nat" where
  "calls P w = length (filter P (w_trace w))"

definition unlink :: "platform \<Rightarrow> string \<Rightarrow> world \<Rightarrow> int \<times> world" where
  "unlink env path w = (p_unlink env (calls is_Unlink w) path, emit (Unlink path) w)"

definition printf :: "string \<Rightarrow> world \<Rightarrow> world" where
  "printf s w = emit (Write Stdout s) w"

definition fputs :: "string \<Rightarrow> stream \<Rightarrow> world \<Rightarrow> world" where
  "fputs s f w = emit (Write f s) w"

definition dlopen :: "platform \<Rightarrow> string \<Rightarrow> world \<Rightarrow> handle option \<times> world" where
  "dlopen env path w =
     (case p_dlopen env (calls is_Dlopen w) path of
        Inl text \<Rightarrow> (None, emit (Dlopen path) (w\<lparr>w_dlerr := Some text\<rparr>))
      | Inr h \<Rightarrow> (Some h, emit (Dlopen path) w))"

definition dlerror :: "world \<Rightarrow> string option \<times> world" where
  "dlerror w = (w_dlerr w, emit Dlerror (w\<lparr>w_dlerr := None\<rparr>))"

definition dlsym :: "platform \<Rightarrow> handle \<Rightarrow> string \<Rightarrow> world \<Rightarrow> fnptr option \<times> world" where
  "dlsym env h name w =
     (case p_dlsym env h name of
        Inl text \<Rightarrow> (None, emit (Dlsym h name) (w\<lparr>w_dlerr := Some text\<rparr>))
      | Inr f \<Rightarrow> (Some f, emit (Dlsym h name) w))"

definition dlclose :: "handle option \<Rightarrow> world \<Rightarrow> world" where
  "dlclose h w = emit (Dlclose h) w"

definition LoadLibrary_call :: "platform \<Rightarrow> string \<Rightarrow> world \<Rightarrow> handle option \<times> world" where
  "LoadLibrary_call env path w =
     (case p_load_library env (calls is_LoadLibrary w) path of
        Inl code \<Rightarrow> (None, emit (LoadLibrary path) (w\<lparr>w_last_error := code\<rparr>))
      | Inr h \<Rightarrow> (Some h, emit (LoadLibrary path) w))"

definition GetLastError_call :: "world \<Rightarrow> 32 word \<times> world" where
  "GetLastError_call w = (w_last_error w, emit GetLastError w)"

definition GetProcAddress_call ::
  "platform \<Rightarrow> handle \<Rightarrow> string \<Rightarrow> world \<Rightarrow> fnptr option \<times> world" where
  "GetProcAddress_call env h name w =
     (case p_get_proc_address env h name of
        Inl code \<Rightarrow> (None, emit (GetProcAddress h name) (w\<lparr>w_last_error := code\<rparr>))
      | Inr f \<Rightarrow> (Some f, emit (GetProcAddress h name) w))"

text \<open>\<open>error_fd\<close>, lines 16 to 25: the log file when it is configured and opens, else stderr.\<close>

definition error_fd :: "platform \<Rightarrow> world \<Rightarrow> stream \<times> world" where
  "error_fd env w =
     (case p_log_env env of
        Some log_env \<Rightarrow>
          (let w1 = emit (Fopen log_env) w
           in if p_fopen env log_env then (Log_file log_env, w1) else (Stderr, w1))
      | None \<Rightarrow> (Stderr, w))"

text \<open>
  \<open>fputs(dlerror(), error_fd()); return code;\<close> of lines 62 to 63 and 73 to 74, in the
  order of the build. A null text makes \<open>fputs\<close> fault.
\<close>

definition report_dlerror :: "platform \<Rightarrow> int \<Rightarrow> world \<Rightarrow> outcome \<times> world" where
  "report_dlerror env code w =
     (case p_fputs_order env code of
        Dlerror_first \<Rightarrow>
          (let (e, w1) = dlerror w;
               (f, w2) = error_fd env w1
           in case e of
                None \<Rightarrow> (Memory_fault, w2)
              | Some text \<Rightarrow> (Exit code, fputs text f w2))
      | Error_fd_first \<Rightarrow>
          (let (f, w1) = error_fd env w;
               (e, w2) = dlerror w1
           in case e of
                None \<Rightarrow> (Memory_fault, w2)
              | Some text \<Rightarrow> (Exit code, fputs text f w2)))"

text \<open>\<open>%lu\<close> of \<open>fprintf\<close>: an unsigned number in decimal.\<close>

fun dec :: "nat \<Rightarrow> string" where
  "dec n = (if n < 10 then [''0123456789'' ! n] else dec (n div 10) @ [''0123456789'' ! (n mod 10)])"

declare dec.simps [simp del]

subsection \<open>The dependency loop of the POSIX build, lines 55 to 69\<close>

text \<open>\<open>*lib_path == '-' && !lib_path[1]\<close>\<close>

definition is_marker :: "string \<Rightarrow> bool" where
  "is_marker lib_path =
     (case lib_path of [] \<Rightarrow> False | c # rest \<Rightarrow> c = CHR ''-'' \<and> rest = [])"

function dep_loop ::
  "platform \<Rightarrow> string list \<Rightarrow> nat \<Rightarrow> nat \<Rightarrow> nat \<Rightarrow> bool \<Rightarrow> handle option list option \<Rightarrow> world
   \<Rightarrow> (outcome + nat \<times> handle option list option) \<times> world" where
  "dep_loop env argv n i additional_shared_libraries_count unlink_next handles w =
     (if i < n then
        (let lib_path = argv ! (3 + i) in
         if is_marker lib_path then
           dep_loop env argv n (i + 1) additional_shared_libraries_count True handles w
         else
           (let (h, w1) = dlopen env lib_path w in
            case handles of
              None \<Rightarrow> (Inl Memory_fault, w1)
            | Some hs \<Rightarrow>
                if length hs \<le> additional_shared_libraries_count then (Inl Memory_fault, w1)
                else
                  (let handles1 = Some (hs[additional_shared_libraries_count := h]);
                       count1 = additional_shared_libraries_count + 1
                   in case h of
                        None \<Rightarrow>
                          (case report_dlerror env 9 w1 of (out, w2) \<Rightarrow> (Inl out, w2))
                      | Some _ \<Rightarrow>
                          if unlink_next then
                            dep_loop env argv n (i + 1) count1 False handles1
                              (snd (unlink env lib_path w1))
                          else
                            dep_loop env argv n (i + 1) count1 unlink_next handles1 w1)))
      else (Inr (additional_shared_libraries_count, handles), w))"
  by pat_completeness auto
termination
  by (relation "measure (\<lambda>(env, argv, n, i, c, u, hs, w). n - i)") auto

declare dep_loop.simps [simp del]

text \<open>The release loop, lines 91 to 93.\<close>

function close_loop ::
  "handle option list \<Rightarrow> nat \<Rightarrow> nat \<Rightarrow> world \<Rightarrow> outcome option \<times> world" where
  "close_loop hs additional_shared_libraries_count i w =
     (if i < additional_shared_libraries_count then
        (if length hs \<le> i then (Some Memory_fault, w)
         else close_loop hs additional_shared_libraries_count (i + 1) (dlclose (hs ! i) w))
      else (None, w))"
  by pat_completeness auto
termination
  by (relation "measure (\<lambda>(hs, c, i, w). c - i)") auto

declare close_loop.simps [simp del]

text \<open>Lines 44 to 95, the branch taken when \<open>_WIN32\<close> is not defined.\<close>

definition main_posix ::
  "platform \<Rightarrow> string list \<Rightarrow> string \<Rightarrow> string \<Rightarrow> nat \<Rightarrow> world \<Rightarrow> outcome \<times> world" where
  "main_posix env argv library_path symbol_name additional_shared_libraries_args w =
     (let handles = (if additional_shared_libraries_args > 0
                     then Some (replicate additional_shared_libraries_args None) else None)
      in case dep_loop env argv additional_shared_libraries_args 0 0 False handles w of
           (Inl out, w1) \<Rightarrow> (out, w1)
         | (Inr (additional_shared_libraries_count, handles1), w1) \<Rightarrow>
             (let (handle, w2) = dlopen env library_path w1 in
              case handle of
                None \<Rightarrow> report_dlerror env 10 w2
              | Some h \<Rightarrow>
                  (let (stale, w3) = dlerror w2;
                       (fn, w4) = dlsym env h symbol_name w3;
                       (error, w5) = dlerror w4
                   in case error of
                        Some text \<Rightarrow>
                          (let (f, w6) = error_fd env w5 in (Exit 11, fputs text f w6))
                      | None \<Rightarrow>
                          (case fn of
                             None \<Rightarrow> (Memory_fault, w5)
                           | Some f \<Rightarrow>
                               (let w6 = emit (Invoke f) w5 in
                                if \<not> p_invoke env f then (No_return, w6)
                                else
                                  (let w7 = dlclose (Some h) w6 in
                                   case handles1 of
                                     None \<Rightarrow> (Exit 0, w7)
                                   | Some hs \<Rightarrow>
                                       (case close_loop hs additional_shared_libraries_count 0 w7 of
                                          (Some out, w8) \<Rightarrow> (out, w8)
                                        | (None, w8) \<Rightarrow> (Exit 0, w8))))))))"

subsection \<open>The Windows build, lines 97 to 122\<close>

function win32_loop ::
  "platform \<Rightarrow> string list \<Rightarrow> nat \<Rightarrow> nat \<Rightarrow> world \<Rightarrow> outcome option \<times> world" where
  "win32_loop env argv n i w =
     (if i < n then
        (let lib_path = argv ! (3 + i);
             (handle, w1) = LoadLibrary_call env lib_path w
         in case handle of
              None \<Rightarrow>
                (let (res, w2) = GetLastError_call w1;
                     (f, w3) = error_fd env w2
                 in (Some (Exit 9),
                     fputs (''error: '' @ dec (unat res)
                            @ '', could not load dependent shared library '' @ lib_path
                            @ [CHR 0x0A]) f w3))
            | Some _ \<Rightarrow> win32_loop env argv n (i + 1) w1)
      else (None, w))"
  by pat_completeness auto
termination
  by (relation "measure (\<lambda>(env, argv, n, i, w). n - i)") auto

declare win32_loop.simps [simp del]

definition main_win32 ::
  "platform \<Rightarrow> string list \<Rightarrow> string \<Rightarrow> string \<Rightarrow> nat \<Rightarrow> world \<Rightarrow> outcome \<times> world" where
  "main_win32 env argv library_path symbol_name additional_shared_libraries_args w =
     (case win32_loop env argv additional_shared_libraries_args 0 w of
        (Some out, w1) \<Rightarrow> (out, w1)
      | (None, w1) \<Rightarrow>
          (let (handle, w2) = LoadLibrary_call env library_path w1 in
           case handle of
             None \<Rightarrow>
               (let (res, w3) = GetLastError_call w2;
                    (f, w4) = error_fd env w3
                in (Exit 10,
                    fputs (''error: '' @ dec (unat res) @ '', could not load shared library ''
                           @ library_path @ [CHR 0x0A]) f w4))
           | Some h \<Rightarrow>
               (let (fn, w3) = GetProcAddress_call env h symbol_name w2 in
                case fn of
                  None \<Rightarrow>
                    (let (res, w4) = GetLastError_call w3;
                         (f, w5) = error_fd env w4
                     in (Exit 11,
                         fputs (''error: '' @ dec (unat res) @ '' loading symbol: ''
                                @ symbol_name @ '' from: '' @ library_path @ [CHR 0x0A]) f w5))
                | Some f \<Rightarrow>
                    (let w4 = emit (Invoke f) w3 in
                     if \<not> p_invoke env f then (No_return, w4) else (Exit 0, w4)))))"

subsection \<open>\<open>main\<close>, lines 27 to 128\<close>

definition main :: "build \<Rightarrow> platform \<Rightarrow> string list \<Rightarrow> world \<Rightarrow> outcome \<times> world" where
  "main b env argv w =
     (let argc = length argv in
      if argc > 3 then
        (let w1 = (if argv ! 1 \<noteq> [] then snd (unlink env (argv ! 1) w) else w);
             library_path = argv ! 2;
             symbol_name = argv ! (argc - 1)
         in if library_path = ''__dummy_mirror_test'' then
              (Exit 0, printf (library_path @ '' '' @ symbol_name) w1)
            else
              (let additional_shared_libraries_args = argc - 4 in
               case b of
                 Posix \<Rightarrow>
                   main_posix env argv library_path symbol_name additional_shared_libraries_args w1
               | Win32 \<Rightarrow>
                   main_win32 env argv library_path symbol_name additional_shared_libraries_args w1))
      else (Exit 12, w))"

text \<open>
  A run starts with no call made yet; the loader may hold an error from before \<open>main\<close>.
  The result of a run is how it ends and the calls it made, in order.
\<close>

definition start :: "string option \<Rightarrow> 32 word \<Rightarrow> world" where
  "start stale code = \<lparr>w_trace = [], w_dlerr = stale, w_last_error = code\<rparr>"

definition run ::
  "build \<Rightarrow> platform \<Rightarrow> string list \<Rightarrow> string option \<Rightarrow> 32 word \<Rightarrow> outcome \<times> event list" where
  "run b env argv stale code =
     (case main b env argv (start stale code) of (out, w) \<Rightarrow> (out, w_trace w))"

section \<open>Vocabulary of the properties\<close>

text \<open>
  The invocation is
  \<^verbatim>\<open>trampoline <temp_launcher_path> <target_library_path> [dep_path | "-"]* <symbol_name>\<close>.
  The dependency arguments are the \<open>argc - 4\<close> arguments between the target library path
  and the symbol name; the dependency paths are those of them that are not the marker.
\<close>

definition dependency_args :: "string list \<Rightarrow> string list" where
  "dependency_args argv = take (length argv - 4) (drop 3 argv)"

definition dependency_paths :: "string list \<Rightarrow> string list" where
  "dependency_paths argv = filter (\<lambda>a. a \<noteq> ''-'') (dependency_args argv)"

text \<open>
  The \<open>DependencySpec\<close>s of the specification, as pairs \<open>(path, unlink_after_load)\<close>, read
  off the dependency arguments by position: every argument that is not the marker is a
  path, and it is to be unlinked after load exactly when the argument immediately before
  it, among the dependency arguments, is the marker.
\<close>

definition dependency_specs :: "string list \<Rightarrow> (string \<times> bool) list" where
  "dependency_specs args =
     map (\<lambda>i. (args ! i, 0 < i \<and> args ! (i - 1) = ''-''))
       (filter (\<lambda>i. args ! i \<noteq> ''-'') [0..<length args])"

text \<open>
  The handles that the platform gives when \<open>paths\<close> are opened in this order by the calls
  number \<open>k\<close>, \<open>k + 1\<close>, ... of \<open>dlopen\<close>, up to the first path that does not open. Its length
  is the number of paths that open before the first failure; all of them open when it
  is \<open>length paths\<close>. \<open>loaded_libraries\<close> is the same for \<open>LoadLibrary\<close>.
\<close>

fun loaded_handles :: "platform \<Rightarrow> nat \<Rightarrow> string list \<Rightarrow> handle list" where
  "loaded_handles env k [] = []"
| "loaded_handles env k (path # paths) =
     (case p_dlopen env k path of
        Inl msg \<Rightarrow> []
      | Inr h \<Rightarrow> h # loaded_handles env (Suc k) paths)"

fun loaded_libraries :: "platform \<Rightarrow> nat \<Rightarrow> string list \<Rightarrow> handle list" where
  "loaded_libraries env k [] = []"
| "loaded_libraries env k (path # paths) =
     (case p_load_library env k path of
        Inl c \<Rightarrow> []
      | Inr h \<Rightarrow> h # loaded_libraries env (Suc k) paths)"

text \<open>
  The error sink: the stream that \<open>error_fd\<close> returns on a platform, and the calls that
  \<open>error_fd\<close> makes to get it.
\<close>

definition error_sink :: "platform \<Rightarrow> stream" where
  "error_sink env =
     (case p_log_env env of
        Some log_env \<Rightarrow> if p_fopen env log_env then Log_file log_env else Stderr
      | None \<Rightarrow> Stderr)"

definition error_fd_calls :: "platform \<Rightarrow> event list" where
  "error_fd_calls env = (case p_log_env env of Some log_env \<Rightarrow> [Fopen log_env] | None \<Rightarrow> [])"

text \<open>What a trace writes to a stream, in order.\<close>

fun written :: "stream \<Rightarrow> event list \<Rightarrow> string" where
  "written f [] = []"
| "written f (Write g s # evs) = (if g = f then s @ written f evs else written f evs)"
| "written f (e # evs) = written f evs"

text \<open>
  The calls of the artifact cleanup, of one dependency that loads, and of an error report
  on each build: \<open>argument_calls\<close> and \<open>fputs_events\<close> are those of
  \<open>fputs(dlerror(), error_fd())\<close>, \<open>report_events\<close> those of lines 83 to 84, where
  \<open>dlerror\<close> is called in the condition, before \<open>error_fd\<close>.
\<close>

definition cleanup_events :: "string \<Rightarrow> event list" where
  "cleanup_events temp_launcher_path =
     (if temp_launcher_path \<noteq> [] then [Unlink temp_launcher_path] else [])"

definition spec_events :: "string \<times> bool \<Rightarrow> event list" where
  "spec_events spec = Dlopen (fst spec) # (if snd spec then [Unlink (fst spec)] else [])"

definition argument_calls :: "platform \<Rightarrow> int \<Rightarrow> event list" where
  "argument_calls env code =
     (case p_fputs_order env code of
        Dlerror_first \<Rightarrow> [Dlerror] @ error_fd_calls env
      | Error_fd_first \<Rightarrow> error_fd_calls env @ [Dlerror])"

definition fputs_events :: "platform \<Rightarrow> int \<Rightarrow> string \<Rightarrow> event list" where
  "fputs_events env code msg = argument_calls env code @ [Write (error_sink env) msg]"

definition report_events :: "platform \<Rightarrow> string \<Rightarrow> event list" where
  "report_events env msg = [Dlerror] @ error_fd_calls env @ [Write (error_sink env) msg]"

definition win32_report :: "platform \<Rightarrow> string \<Rightarrow> event list" where
  "win32_report env msg = [GetLastError] @ error_fd_calls env @ [Write (error_sink env) msg]"

section \<open>The dependency loader of the specification\<close>

text \<open>
  Section 4.3 of the specification, in its words: iterate the dependency specs in order;
  open each; on open failure write the loader's error text to the error sink and end
  with exit code 9; on open success delete the file when \<open>unlink_after_load\<close> is set. The
  handles are collected in load order. The loop of \<open>main\<close> is proved to refine it.
\<close>

fun load_dependencies ::
  "platform \<Rightarrow> (string \<times> bool) list \<Rightarrow> world \<Rightarrow> (outcome + handle list) \<times> world" where
  "load_dependencies env [] w = (Inr [], w)"
| "load_dependencies env ((path, unlink_after_load) # specs) w =
     (case dlopen env path w of
        (None, w1) \<Rightarrow> (case report_dlerror env 9 w1 of (out, w2) \<Rightarrow> (Inl out, w2))
      | (Some h, w1) \<Rightarrow>
          (case load_dependencies env specs
                  (if unlink_after_load then snd (unlink env path w1) else w1) of
             (Inl out, w2) \<Rightarrow> (Inl out, w2)
           | (Inr hs, w2) \<Rightarrow> (Inr (h # hs), w2)))"

section \<open>Devices of the proofs\<close>

text \<open>Several calls appended to the trace at once.\<close>

definition add_events :: "event list \<Rightarrow> world \<Rightarrow> world" where
  "add_events evs w = w\<lparr>w_trace := w_trace w @ evs\<rparr>"

text \<open>
  The two iterations over \<open>argv[3 + i]\<close> as recursions over the list of the arguments they
  visit, and the dependency specs as the loop computes them, with the flag
  \<open>unlink_next\<close>.
\<close>

fun specs_from :: "bool \<Rightarrow> string list \<Rightarrow> (string \<times> bool) list" where
  "specs_from u [] = []"
| "specs_from u (a # as) =
     (if is_marker a then specs_from True as else (a, u) # specs_from False as)"

fun dep_list ::
  "platform \<Rightarrow> string list \<Rightarrow> nat \<Rightarrow> bool \<Rightarrow> handle option list option \<Rightarrow> world
   \<Rightarrow> (outcome + nat \<times> handle option list option) \<times> world" where
  "dep_list env [] c u handles w = (Inr (c, handles), w)"
| "dep_list env (lib_path # rest) c u handles w =
     (if is_marker lib_path then dep_list env rest c True handles w
      else
        (case dlopen env lib_path w of
           (h, w1) \<Rightarrow>
             (case handles of
                None \<Rightarrow> (Inl Memory_fault, w1)
              | Some hs \<Rightarrow>
                  if length hs \<le> c then (Inl Memory_fault, w1)
                  else
                    (case h of
                       None \<Rightarrow> (case report_dlerror env 9 w1 of (out, w2) \<Rightarrow> (Inl out, w2))
                     | Some _ \<Rightarrow>
                         dep_list env rest (c + 1) False (Some (hs[c := h]))
                           (if u then snd (unlink env lib_path w1) else w1)))))"

fun win32_list :: "platform \<Rightarrow> string list \<Rightarrow> world \<Rightarrow> outcome option \<times> world" where
  "win32_list env [] w = (None, w)"
| "win32_list env (lib_path # rest) w =
     (case LoadLibrary_call env lib_path w of
        (None, w1) \<Rightarrow>
          (case GetLastError_call w1 of
             (res, w2) \<Rightarrow>
               (case error_fd env w2 of
                  (f, w3) \<Rightarrow>
                    (Some (Exit 9),
                     fputs (''error: '' @ dec (unat res)
                            @ '', could not load dependent shared library '' @ lib_path
                            @ [CHR 0x0A]) f w3)))
      | (Some h, w1) \<Rightarrow> win32_list env rest w1)"

text \<open>
  The array \<open>handles\<close> after the loop, from the handles in load order: they fill the
  slots from \<open>cnt\<close> on.
\<close>

definition store_handles ::
  "nat \<Rightarrow> handle option list \<Rightarrow> (outcome + handle list) \<times> world
   \<Rightarrow> (outcome + nat \<times> handle option list option) \<times> world" where
  "store_handles cnt arr r =
     (case r of
        (Inl out, w) \<Rightarrow> (Inl out, w)
      | (Inr hs, w) \<Rightarrow>
          (Inr (cnt + length hs,
                Some (take cnt arr @ map Some hs @ drop (cnt + length hs) arr)), w))"

section \<open>A closed form of a run\<close>

text \<open>
  What a run does after the artifact cleanup and after the dependencies that load, on
  each build: how it ends, and the calls it makes from the first library that fails to
  load, or from the target library on. It is a function of the answers of the platform
  alone. The lemmas \<open>run_posix_behaviour\<close> and \<open>run_win32_behaviour\<close> prove that \<open>main\<close>
  behaves so; the branch with \<open>Memory_fault\<close> is never taken (\<open>run_no_memory_fault\<close>).
\<close>

definition posix_tail :: "platform \<Rightarrow> string list \<Rightarrow> outcome \<times> event list" where
  "posix_tail env argv =
     (let paths = dependency_paths argv;
          hs = loaded_handles env 0 paths;
          j = length hs;
          library_path = argv ! 2;
          symbol_name = last argv
      in if j < length paths then
           (case p_dlopen env j (paths ! j) of
              Inl msg \<Rightarrow> (Exit 9, [Dlopen (paths ! j)] @ fputs_events env 9 msg)
            | Inr h \<Rightarrow> (Memory_fault, []))
         else
           (case p_dlopen env j library_path of
              Inl msg \<Rightarrow> (Exit 10, [Dlopen library_path] @ fputs_events env 10 msg)
            | Inr h \<Rightarrow>
                (case p_dlsym env h symbol_name of
                   Inl msg \<Rightarrow>
                     (Exit 11,
                      [Dlopen library_path, Dlerror, Dlsym h symbol_name]
                      @ report_events env msg)
                 | Inr f \<Rightarrow>
                     (if p_invoke env f then
                        (Exit 0,
                         [Dlopen library_path, Dlerror, Dlsym h symbol_name, Dlerror,
                          Invoke f, Dlclose (Some h)]
                         @ map (\<lambda>d. Dlclose (Some d)) hs)
                      else
                        (No_return,
                         [Dlopen library_path, Dlerror, Dlsym h symbol_name, Dlerror,
                          Invoke f])))))"

definition posix_behaviour :: "platform \<Rightarrow> string list \<Rightarrow> outcome \<times> event list" where
  "posix_behaviour env argv =
     (fst (posix_tail env argv),
      cleanup_events (argv ! 1)
      @ concat (map spec_events
                  (take (length (loaded_handles env 0 (dependency_paths argv)))
                     (dependency_specs (dependency_args argv))))
      @ snd (posix_tail env argv))"

definition win32_tail :: "platform \<Rightarrow> string list \<Rightarrow> outcome \<times> event list" where
  "win32_tail env argv =
     (let paths = dependency_args argv;
          j = length (loaded_libraries env 0 paths);
          library_path = argv ! 2;
          symbol_name = last argv
      in if j < length paths then
           (case p_load_library env j (paths ! j) of
              Inl c \<Rightarrow>
                (Exit 9,
                 [LoadLibrary (paths ! j)]
                 @ win32_report env
                     (''error: '' @ dec (unat c) @ '', could not load dependent shared library ''
                      @ paths ! j @ [CHR 0x0A]))
            | Inr h \<Rightarrow> (Memory_fault, []))
         else
           (case p_load_library env j library_path of
              Inl c \<Rightarrow>
                (Exit 10,
                 [LoadLibrary library_path]
                 @ win32_report env
                     (''error: '' @ dec (unat c) @ '', could not load shared library ''
                      @ library_path @ [CHR 0x0A]))
            | Inr h \<Rightarrow>
                (case p_get_proc_address env h symbol_name of
                   Inl c \<Rightarrow>
                     (Exit 11,
                      [LoadLibrary library_path, GetProcAddress h symbol_name]
                      @ win32_report env
                          (''error: '' @ dec (unat c) @ '' loading symbol: '' @ symbol_name
                           @ '' from: '' @ library_path @ [CHR 0x0A]))
                 | Inr f \<Rightarrow>
                     (if p_invoke env f then Exit 0 else No_return,
                      [LoadLibrary library_path, GetProcAddress h symbol_name, Invoke f]))))"

definition win32_behaviour :: "platform \<Rightarrow> string list \<Rightarrow> outcome \<times> event list" where
  "win32_behaviour env argv =
     (fst (win32_tail env argv),
      cleanup_events (argv ! 1)
      @ map LoadLibrary
          (take (length (loaded_libraries env 0 (dependency_args argv))) (dependency_args argv))
      @ snd (win32_tail env argv))"

definition after_cleanup :: "build \<Rightarrow> platform \<Rightarrow> string list \<Rightarrow> outcome \<times> event list" where
  "after_cleanup b env argv =
     (if argv ! 2 = ''__dummy_mirror_test'' then
        (Exit 0, [Write Stdout (argv ! 2 @ '' '' @ last argv)])
      else
        (case b of
           Posix \<Rightarrow>
             (fst (posix_tail env argv),
              concat (map spec_events
                        (take (length (loaded_handles env 0 (dependency_paths argv)))
                           (dependency_specs (dependency_args argv))))
              @ snd (posix_tail env argv))
         | Win32 \<Rightarrow>
             (fst (win32_tail env argv),
              map LoadLibrary
                (take (length (loaded_libraries env 0 (dependency_args argv)))
                   (dependency_args argv))
              @ snd (win32_tail env argv))))"

section \<open>Example platforms and invocations\<close>

text \<open>
  A platform on which every library but \<open>libmissing.so\<close> loads, every symbol but \<open>absent\<close>
  resolves, the invoked symbol returns, the file \<open>/tmp/locked\<close> cannot be deleted,
  errors go to stderr, and the build calls \<open>error_fd\<close> before \<open>dlerror\<close>; and the same
  platform with a log file configured.
\<close>

definition example_platform :: platform where
  "example_platform =
     \<lparr>p_unlink = (\<lambda>k path. if path = ''/tmp/locked'' then - 1 else 0),
      p_log_env = None,
      p_fopen = (\<lambda>path. False),
      p_dlopen = (\<lambda>k path. if path = ''libmissing.so''
                             then Inl (path @ '': cannot open shared object file'')
                             else Inr (100 + k)),
      p_dlsym = (\<lambda>h name. if name = ''absent'' then Inl (''undefined symbol: '' @ name)
                            else Inr 4096),
      p_invoke = (\<lambda>f. True),
      p_load_library = (\<lambda>k path. if path = ''missing.dll'' then Inl 126 else Inr (100 + k)),
      p_get_proc_address = (\<lambda>h name. if name = ''absent'' then Inl 127 else Inr 4096),
      p_fputs_order = (\<lambda>code. Error_fd_first)\<rparr>"

definition logging_platform :: platform where
  "logging_platform =
     example_platform\<lparr>p_log_env := Some ''/var/log/dd-trace.log'', p_fopen := (\<lambda>path. True)\<rparr>"

text \<open>
  The logging platform for a build that calls \<open>dlerror\<close> before \<open>error_fd\<close>, and a platform
  whose loader leaves the empty text when a library does not open.
\<close>

definition dlerror_first_platform :: platform where
  "dlerror_first_platform = logging_platform\<lparr>p_fputs_order := (\<lambda>code. Dlerror_first)\<rparr>"

definition silent_platform :: platform where
  "silent_platform =
     example_platform\<lparr>p_dlopen := (\<lambda>k path. if path = ''libmissing.so'' then Inl []
                                              else Inr (100 + k))\<rparr>"

definition argv_short :: "string list" where
  "argv_short = [''trampoline'', ''/tmp/launcher'', ''libtarget.so'']"

definition argv_success :: "string list" where
  "argv_success = [''trampoline'', ''/tmp/launcher'', ''libtarget.so'', ''-'', ''libdep.so'',
                   ''libhelper.so'', ''do_init'']"

definition argv_dep_missing :: "string list" where
  "argv_dep_missing = [''trampoline'', ''/tmp/launcher'', ''libtarget.so'', ''-'', ''libdep.so'',
                       ''libhelper.so'', ''-'', ''libmissing.so'', ''do_init'']"

definition argv_target_missing :: "string list" where
  "argv_target_missing = [''trampoline'', [], ''libmissing.so'', ''-'', ''libdep.so'',
                          ''do_init'']"

definition argv_symbol_absent :: "string list" where
  "argv_symbol_absent = [''trampoline'', ''/tmp/launcher'', ''libtarget.so'', ''-'',
                         ''libdep.so'', ''absent'']"

definition argv_dummy :: "string list" where
  "argv_dummy = [''trampoline'', ''/tmp/launcher'', ''__dummy_mirror_test'', ''-'',
                 ''libdep.so'', ''do_init'']"

definition argv_locked :: "string list" where
  "argv_locked = [''trampoline'', ''/tmp/locked'', ''libtarget.so'', ''do_init'']"


text \<open>Invocations for the Windows build, where every library but \<open>missing.dll\<close> loads.\<close>

definition argv_dll_success :: "string list" where
  "argv_dll_success = [''trampoline'', [], ''target.dll'', ''dep.dll'', ''helper.dll'',
                       ''do_init'']"

definition argv_dll_dep_missing :: "string list" where
  "argv_dll_dep_missing = [''trampoline'', [], ''target.dll'', ''dep.dll'', ''missing.dll'',
                           ''do_init'']"

definition argv_dll_target_missing :: "string list" where
  "argv_dll_target_missing = [''trampoline'', [], ''missing.dll'', ''dep.dll'', ''do_init'']"

definition argv_dll_symbol_absent :: "string list" where
  "argv_dll_symbol_absent = [''trampoline'', [], ''target.dll'', ''dep.dll'', ''absent'']"

section \<open>Lemmas\<close>

subsection \<open>The iterations as list recursions, and the refinement of the dependency loader\<close>

lemma take_Suc_update: "c < length arr \<Longrightarrow> take (Suc c) (arr[c := x]) = take c arr @ [x]"
  by (simp add: take_Suc_conv_app_nth)

lemma dep_loop_list:
  "dep_loop env argv n i c u handles w =
     dep_list env (map (\<lambda>j. argv ! (3 + j)) [i..<n]) c u handles w"
proof (induction env argv n i c u handles w rule: dep_loop.induct)
  case (1 env argv n i c u handles w)
  show ?case
  proof (cases "i < n")
    case False
    then show ?thesis
      by (simp add: dep_loop.simps)
  next
    case True
    then have upt: "[i..<n] = i # [Suc i..<n]"
      by (simp add: upt_conv_Cons)
    from True 1 show ?thesis
      apply (subst dep_loop.simps)
      apply (simp add: upt split: prod.splits option.splits)
      done
  qed
qed

lemma dep_list_refines:
  "c + length (specs_from u args) \<le> length arr \<Longrightarrow>
   dep_list env args c u (Some arr) w =
     store_handles c arr (load_dependencies env (specs_from u args) w)"
proof (induction args arbitrary: c u arr w)
  case Nil
  then show ?case by (simp add: store_handles_def)
next
  case (Cons a args)
  show ?case
  proof (cases "is_marker a")
    case True
    with Cons show ?thesis by simp
  next
    case False
    from Cons.prems False have len: "c < length arr" by simp
    obtain h w1 where d: "dlopen env a w = (h, w1)"
      by (cases "dlopen env a w")
    show ?thesis
    proof (cases h)
      case None
      with False d len show ?thesis
        by (simp add: store_handles_def split: prod.splits)
    next
      case (Some hv)
      let ?w2 = "if u then snd (unlink env a w1) else w1"
      from Cons.prems False have "c + 1 + length (specs_from False args) \<le> length (arr[c := Some hv])"
        by simp
      from Cons.IH[OF this] False d len Some show ?thesis
        by (auto simp add: store_handles_def take_Suc_update split: prod.splits sum.splits)
    qed
  qed
qed

subsection \<open>The calls in terms of the trace\<close>

lemma is_marker_iff: "is_marker s \<longleftrightarrow> s = ''-''"
  by (auto simp: is_marker_def split: list.splits)

lemma emit_add: "emit e w = add_events [e] w"
  by (simp add: emit_def add_events_def)

lemma add_events_Nil [simp]: "add_events [] w = w"
  by (simp add: add_events_def)

lemma add_events_add [simp]: "add_events b (add_events a w) = add_events (a @ b) w"
  by (simp add: add_events_def)

lemma add_events_fields [simp]:
  "w_trace (add_events evs w) = w_trace w @ evs"
  "w_dlerr (add_events evs w) = w_dlerr w"
  "w_last_error (add_events evs w) = w_last_error w"
  by (simp_all add: add_events_def)

lemma add_events_dlerr [simp]:
  "add_events evs (w\<lparr>w_dlerr := x\<rparr>) = (add_events evs w)\<lparr>w_dlerr := x\<rparr>"
  by (simp add: add_events_def)

lemma calls_add [simp]: "calls P (add_events evs w) = calls P w + length (filter P evs)"
  by (simp add: calls_def)

lemma calls_dlerr [simp]: "calls P (w\<lparr>w_dlerr := x\<rparr>) = calls P w"
  by (simp add: calls_def)

lemma error_fd_eq: "error_fd env w = (error_sink env, add_events (error_fd_calls env) w)"
  by (simp add: error_fd_def error_sink_def error_fd_calls_def emit_add split: option.splits)

lemma snd_unlink: "snd (unlink env path w) = add_events [Unlink path] w"
  by (simp add: unlink_def emit_add)

lemma dlopen_Inr:
  "p_dlopen env (calls is_Dlopen w) path = Inr h \<Longrightarrow>
   dlopen env path w = (Some h, add_events [Dlopen path] w)"
  by (simp add: dlopen_def emit_add)

lemma dlopen_Inl:
  "p_dlopen env (calls is_Dlopen w) path = Inl text \<Longrightarrow>
   dlopen env path w = (None, (add_events [Dlopen path] w)\<lparr>w_dlerr := Some text\<rparr>)"
  by (simp add: dlopen_def emit_add)

lemma dlerror_eq: "dlerror w = (w_dlerr w, (add_events [Dlerror] w)\<lparr>w_dlerr := None\<rparr>)"
  by (simp add: dlerror_def emit_add)

lemma report_dlerror_eq:
  "w_dlerr w = Some text \<Longrightarrow>
   report_dlerror env code w =
     (Exit code,
      (add_events (fputs_events env code text) w)\<lparr>w_dlerr := None\<rparr>)"
  by (simp add: report_dlerror_def dlerror_eq error_fd_eq fputs_def emit_add fputs_events_def
      argument_calls_def split: argument_order.split)

subsection \<open>What the dependency loader does\<close>

lemma load_dependencies_ok:
  "length (loaded_handles env (calls is_Dlopen w) (map fst specs)) = length specs \<Longrightarrow>
   load_dependencies env specs w =
     (Inr (loaded_handles env (calls is_Dlopen w) (map fst specs)),
      add_events (concat (map spec_events specs)) w)"
proof (induction specs arbitrary: w)
  case Nil
  then show ?case by simp
next
  case (Cons spec specs)
  obtain path u where spec: "spec = (path, u)" by (cases spec)
  from Cons.prems spec obtain h where h: "p_dlopen env (calls is_Dlopen w) path = Inr h"
    by (cases "p_dlopen env (calls is_Dlopen w) path") auto
  let ?w2 = "if u then add_events [Dlopen path, Unlink path] w else add_events [Dlopen path] w"
  have k: "calls is_Dlopen ?w2 = Suc (calls is_Dlopen w)" by simp
  from Cons.prems spec h
  have "length (loaded_handles env (calls is_Dlopen ?w2) (map fst specs)) = length specs"
    by (simp only: k) simp
  from Cons.IH[OF this] spec h show ?case
    by (cases u) (simp_all add: dlopen_Inr snd_unlink spec_events_def)
qed

lemma load_dependencies_fail:
  "length (loaded_handles env (calls is_Dlopen w) (map fst specs)) = j \<Longrightarrow> j < length specs \<Longrightarrow>
   \<exists>msg. p_dlopen env (calls is_Dlopen w + j) (fst (specs ! j)) = Inl msg \<and>
     load_dependencies env specs w =
       (Inl (Exit 9),
        (add_events (concat (map spec_events (take j specs))
                     @ [Dlopen (fst (specs ! j))] @ fputs_events env 9 msg) w)\<lparr>w_dlerr := None\<rparr>)"
proof (induction specs arbitrary: w j)
  case Nil
  then show ?case by simp
next
  case (Cons spec specs)
  obtain path u where spec: "spec = (path, u)" by (cases spec)
  show ?case
  proof (cases "p_dlopen env (calls is_Dlopen w) path")
    case (Inl msg)
    with Cons.prems spec have "j = 0" by simp
    with Inl spec show ?thesis
      by (simp add: dlopen_Inl report_dlerror_eq)
  next
    case (Inr h)
    let ?w2 = "if u then add_events [Dlopen path, Unlink path] w else add_events [Dlopen path] w"
    have k: "calls is_Dlopen ?w2 = Suc (calls is_Dlopen w)" by simp
    from Cons.prems spec Inr obtain j' where j': "j = Suc j'"
      and len: "length (loaded_handles env (Suc (calls is_Dlopen w)) (map fst specs)) = j'"
      and lt: "j' < length specs"
      by (cases j) auto
    from len have "length (loaded_handles env (calls is_Dlopen ?w2) (map fst specs)) = j'"
      by (simp only: k)
    from Cons.IH[OF this lt] obtain msg where
      t: "p_dlopen env (calls is_Dlopen ?w2 + j') (fst (specs ! j')) = Inl msg" and
      r: "load_dependencies env specs ?w2 =
           (Inl (Exit 9),
            (add_events (concat (map spec_events (take j' specs))
                     @ [Dlopen (fst (specs ! j'))] @ fputs_events env 9 msg) ?w2)\<lparr>w_dlerr := None\<rparr>)"
      by blast
    from t have "p_dlopen env (calls is_Dlopen w + j) (fst ((spec # specs) ! j)) = Inl msg"
      by (simp only: k j') simp
    moreover from r spec Inr j'
    have "load_dependencies env (spec # specs) w =
       (Inl (Exit 9),
        (add_events (concat (map spec_events (take j (spec # specs)))
                     @ [Dlopen (fst ((spec # specs) ! j))] @ fputs_events env 9 msg) w)\<lparr>w_dlerr := None\<rparr>)"
      by (cases u) (simp_all add: dlopen_Inr snd_unlink spec_events_def)
    ultimately show ?thesis by blast
  qed
qed

subsection \<open>The flag of the loop against the positions of the markers\<close>

lemma specs_from_positional:
  "specs_from u args =
     map (\<lambda>i. (args ! i, if i = 0 then u else args ! (i - 1) = ''-''))
       (filter (\<lambda>i. args ! i \<noteq> ''-'') [0..<length args])"
proof (induction args arbitrary: u)
  case Nil
  then show ?case by simp
next
  case (Cons a args)
  have upt: "[0..<length (a # args)] = 0 # map Suc [0..<length args]"
    by (simp add: upt_conv_Cons map_Suc_upt del: upt_Suc)
  have tl: "map (\<lambda>i. ((a # args) ! i, if i = 0 then u else (a # args) ! (i - 1) = ''-''))
              (filter (\<lambda>i. (a # args) ! i \<noteq> ''-'') (map Suc [0..<length args]))
            = specs_from (a = ''-'') args"
    unfolding Cons.IH[of "a = ''-''"] filter_map map_map
    by (rule arg_cong2[where f = map]) (auto simp: fun_eq_iff intro!: filter_cong)
  show ?case
  proof (cases "a = ''-''")
    case True
    have "specs_from u (a # args) = specs_from (a = ''-'') args"
      using True by (simp add: is_marker_iff)
    also note tl[symmetric]
    finally show ?thesis
      unfolding upt using True by simp
  next
    case False
    have "specs_from u (a # args) = (a, u) # specs_from (a = ''-'') args"
      using False by (simp add: is_marker_iff)
    also note tl[symmetric]
    finally show ?thesis
      unfolding upt using False by simp
  qed
qed

lemma specs_from_False: "specs_from False args = dependency_specs args"
  unfolding specs_from_positional dependency_specs_def
  by (rule arg_cong2[where f = map]) (auto simp: fun_eq_iff)

lemma length_specs_from: "length (specs_from u args) \<le> length args"
  by (induction args arbitrary: u) (auto simp: le_SucI)

lemma argv_slice:
  "3 < length argv \<Longrightarrow>
   map (\<lambda>j. argv ! (3 + j)) [0..<length argv - 4] = dependency_args argv"
  unfolding dependency_args_def
  by (rule nth_equalityI) auto

subsection \<open>The release loop and the array of handles\<close>

lemma close_loop_eq:
  "c \<le> length hs \<Longrightarrow>
   close_loop hs c i w = (None, add_events (map (\<lambda>k. Dlclose (hs ! k)) [i..<c]) w)"
proof (induction hs c i w rule: close_loop.induct)
  case (1 hs c i w)
  show ?case
  proof (cases "i < c")
    case False
    then show ?thesis by (simp add: close_loop.simps)
  next
    case True
    with "1.prems" have "\<not> length hs \<le> i" by simp
    with True "1.IH" "1.prems" show ?thesis
      by (subst close_loop.simps) (simp add: upt_conv_Cons dlclose_def emit_add)
  qed
qed

lemma close_prefix:
  "map (\<lambda>k. Dlclose ((map Some hs @ rest) ! k)) [0..<length hs] = map (\<lambda>h. Dlclose (Some h)) hs"
  by (rule nth_equalityI) (auto simp: nth_append)

lemma close_loop_handles:
  "close_loop (map Some hs @ rest) (length hs) 0 w =
     (None, add_events (map (\<lambda>d. Dlclose (Some d)) hs) w)"
  by (simp add: close_loop_eq close_prefix)

lemma dep_loop_main:
  assumes "3 < length argv"
  shows "dep_loop env argv (length argv - 4) 0 0 False
           (if length argv - 4 > 0 then Some (replicate (length argv - 4) None) else None) w =
         (case load_dependencies env (dependency_specs (dependency_args argv)) w of
            (Inl out, w1) \<Rightarrow> (Inl out, w1)
          | (Inr hs, w1) \<Rightarrow>
              (Inr (length hs,
                    if length argv - 4 > 0
                    then Some (map Some hs @ replicate (length argv - 4 - length hs) None)
                    else None), w1))"
proof (cases "length argv - 4 > 0")
  case False
  then have "dependency_args argv = []"
    by (simp add: dependency_args_def)
  with False show ?thesis
    by (simp add: dep_loop.simps dependency_specs_def)
next
  case True
  have len: "length (dependency_args argv) = length argv - 4"
    using assms by (simp add: dependency_args_def)
  have "0 + length (specs_from False (dependency_args argv)) \<le> length (replicate (length argv - 4) (None :: handle option))"
    using length_specs_from[of False "dependency_args argv"] len by simp
  from dep_list_refines[OF this] True show ?thesis
    by (simp add: dep_loop_list argv_slice[OF assms] specs_from_False store_handles_def
        split: prod.splits sum.splits)
qed

lemma map_fst_specs_from: "map fst (specs_from u args) = filter (\<lambda>a. a \<noteq> ''-'') args"
  by (induction args arbitrary: u) (auto simp: is_marker_iff)

lemma dependency_paths_specs:
  "map fst (dependency_specs (dependency_args argv)) = dependency_paths argv"
  by (simp add: specs_from_False[symmetric] map_fst_specs_from dependency_paths_def)

lemma filter_Dlopen_spec_events [simp]:
  "length (filter is_Dlopen (concat (map spec_events specs))) = length specs"
  by (induction specs) (auto simp: spec_events_def)

lemma filter_Dlopen_cleanup [simp]: "filter is_Dlopen (cleanup_events t) = []"
  by (simp add: cleanup_events_def)

subsection \<open>The POSIX build is its closed form\<close>

lemma main_eq_posix:
  "3 < length argv \<Longrightarrow> argv ! 2 \<noteq> ''__dummy_mirror_test'' \<Longrightarrow>
   main Posix env argv w =
     main_posix env argv (argv ! 2) (last argv) (length argv - 4)
       (add_events (cleanup_events (argv ! 1)) w)"
proof -
  assume argc: "3 < length argv" and lib: "argv ! 2 \<noteq> ''__dummy_mirror_test''"
  from argc have "argv \<noteq> []" by auto
  then have "argv ! (length argv - 1) = last argv"
    by (simp add: last_conv_nth)
  with argc lib show ?thesis
    by (simp add: main_def Let_def cleanup_events_def snd_unlink)
qed

lemma length_loaded_handles: "length (loaded_handles env k paths) \<le> length paths"
  by (induction paths arbitrary: k) (auto split: sum.splits)

lemma load_dependencies_length:
  "load_dependencies env specs w = (Inr hs, w1) \<Longrightarrow> length hs = length specs"
  by (induction specs arbitrary: w hs) (auto split: prod.splits option.splits sum.splits)

lemma length_dependency_specs:
  "3 < length argv \<Longrightarrow> length (dependency_specs (dependency_args argv)) \<le> length argv - 4"
  using length_specs_from[of False "dependency_args argv"]
  by (simp add: specs_from_False dependency_args_def)

lemma main_posix_dep_failure:
  "3 < length argv \<Longrightarrow>
   load_dependencies env (dependency_specs (dependency_args argv)) w = (Inl out, w1) \<Longrightarrow>
   main_posix env argv lib name (length argv - 4) w = (out, w1)"
  by (simp only: main_posix_def Let_def dep_loop_main) simp

lemma main_posix_target_failure:
  "3 < length argv \<Longrightarrow>
   load_dependencies env (dependency_specs (dependency_args argv)) w = (Inr hs, w1) \<Longrightarrow>
   p_dlopen env (calls is_Dlopen w1) lib = Inl msg \<Longrightarrow>
   main_posix env argv lib name (length argv - 4) w =
     (Exit 10, (add_events ([Dlopen lib] @ fputs_events env 10 msg) w1)\<lparr>w_dlerr := None\<rparr>)"
  by (simp only: main_posix_def Let_def dep_loop_main)
    (simp add: dlopen_Inl report_dlerror_eq)

lemma main_posix_symbol_failure:
  "3 < length argv \<Longrightarrow>
   load_dependencies env (dependency_specs (dependency_args argv)) w = (Inr hs, w1) \<Longrightarrow>
   p_dlopen env (calls is_Dlopen w1) lib = Inr h \<Longrightarrow>
   p_dlsym env h name = Inl msg \<Longrightarrow>
   main_posix env argv lib name (length argv - 4) w =
     (Exit 11,
      (add_events ([Dlopen lib, Dlerror, Dlsym h name] @ report_events env msg) w1)
        \<lparr>w_dlerr := None\<rparr>)"
  by (simp only: main_posix_def Let_def dep_loop_main)
    (simp add: dlopen_Inr dlerror_eq dlsym_def emit_add error_fd_eq fputs_def report_events_def)

lemma main_posix_invoked:
  assumes argc: "3 < length argv"
    and deps: "load_dependencies env (dependency_specs (dependency_args argv)) w = (Inr hs, w1)"
    and lib: "p_dlopen env (calls is_Dlopen w1) lib = Inr h"
    and name: "p_dlsym env h name = Inr f"
  shows "main_posix env argv lib name (length argv - 4) w =
     (if p_invoke env f then
        (Exit 0,
         (add_events ([Dlopen lib, Dlerror, Dlsym h name, Dlerror, Invoke f, Dlclose (Some h)]
                      @ map (\<lambda>d. Dlclose (Some d)) hs) w1)\<lparr>w_dlerr := None\<rparr>)
      else
        (No_return,
         (add_events [Dlopen lib, Dlerror, Dlsym h name, Dlerror, Invoke f] w1)
           \<lparr>w_dlerr := None\<rparr>))"
proof -
  from load_dependencies_length[OF deps] length_dependency_specs[OF argc]
  have "length hs \<le> length argv - 4" by simp
  then have nil: "\<not> 4 < length argv \<Longrightarrow> hs = []" by auto
  from argc deps lib name show ?thesis
    by (simp only: main_posix_def Let_def dep_loop_main)
      (auto simp add: dlopen_Inr dlerror_eq dlsym_def emit_add dlclose_def close_loop_handles
        nil)
qed

lemma run_posix_behaviour:
  assumes argc: "3 < length argv" and lib: "argv ! 2 \<noteq> ''__dummy_mirror_test''"
  shows "run Posix env argv stale code = posix_behaviour env argv"
proof -
  let ?specs = "dependency_specs (dependency_args argv)"
  let ?w = "add_events (cleanup_events (argv ! 1)) (start stale code)"
  let ?hs = "loaded_handles env 0 (map fst ?specs)"
  have k0: "calls is_Dlopen ?w = 0"
    by (simp add: start_def calls_def add_events_def)
  have tr: "w_trace ?w = cleanup_events (argv ! 1)"
    by (simp add: start_def)
  have ps: "map fst ?specs = dependency_paths argv" by (rule dependency_paths_specs)
  show ?thesis
  proof (cases "length ?hs < length ?specs")
    case True
    from load_dependencies_fail[of env ?w ?specs "length ?hs"] True k0
    obtain msg where
      m: "p_dlopen env (length ?hs) (fst (?specs ! length ?hs)) = Inl msg" and
      r: "load_dependencies env ?specs ?w =
           (Inl (Exit 9),
            (add_events (concat (map spec_events (take (length ?hs) ?specs))
               @ [Dlopen (fst (?specs ! length ?hs))] @ fputs_events env 9 msg) ?w)\<lparr>w_dlerr := None\<rparr>)"
      by auto
    from main_posix_dep_failure[OF argc r] True m show ?thesis
      by (simp add: run_def main_eq_posix[OF argc lib] posix_behaviour_def posix_tail_def Let_def
          report_events_def start_def ps[symmetric])
  next
    case False
    with length_loaded_handles[of env 0 "map fst ?specs"]
    have all: "length ?hs = length ?specs" by simp
    from load_dependencies_ok[of env ?w ?specs] all k0
    have r: "load_dependencies env ?specs ?w =
               (Inr ?hs, add_events (concat (map spec_events ?specs)) ?w)"
      by simp
    have k1: "calls is_Dlopen (add_events (concat (map spec_events ?specs)) ?w) = length ?hs"
      using k0 all by (simp del: add_events_add)
    show ?thesis
    proof (cases "p_dlopen env (length ?hs) (argv ! 2)")
      case (Inl msg)
      with main_posix_target_failure[OF argc r, of "argv ! 2" msg "last argv"] k1 all show ?thesis
        by (simp add: run_def main_eq_posix[OF argc lib] posix_behaviour_def posix_tail_def Let_def
              start_def ps[symmetric])
    next
      case (Inr h)
      note h = this
      show ?thesis
      proof (cases "p_dlsym env h (last argv)")
        case (Inl msg)
        with main_posix_symbol_failure[OF argc r, of "argv ! 2" h "last argv" msg] h k1 all
        show ?thesis
          by (simp add: run_def main_eq_posix[OF argc lib] posix_behaviour_def posix_tail_def Let_def
              start_def ps[symmetric])
      next
        case (Inr f)
        with main_posix_invoked[OF argc r, of "argv ! 2" h "last argv" f] h k1 all
        show ?thesis
          by (simp add: run_def main_eq_posix[OF argc lib] posix_behaviour_def posix_tail_def Let_def
              start_def ps[symmetric])
      qed
    qed
  qed
qed

subsection \<open>The Windows build is its closed form\<close>

lemma add_events_last_error [simp]:
  "add_events evs (w\<lparr>w_last_error := x\<rparr>) = (add_events evs w)\<lparr>w_last_error := x\<rparr>"
  by (simp add: add_events_def)

lemma calls_last_error [simp]: "calls P (w\<lparr>w_last_error := x\<rparr>) = calls P w"
  by (simp add: calls_def)

lemma win32_loop_list:
  "win32_loop env argv n i w = win32_list env (map (\<lambda>j. argv ! (3 + j)) [i..<n]) w"
proof (induction env argv n i w rule: win32_loop.induct)
  case (1 env argv n i w)
  show ?case
  proof (cases "i < n")
    case False
    then show ?thesis
      by (simp add: win32_loop.simps)
  next
    case True
    then have upt: "[i..<n] = i # [Suc i..<n]"
      by (simp add: upt_conv_Cons)
    from True 1 show ?thesis
      by (subst win32_loop.simps) (simp add: upt split: prod.splits option.splits)
  qed
qed

lemma LoadLibrary_Inr:
  "p_load_library env (calls is_LoadLibrary w) path = Inr h \<Longrightarrow>
   LoadLibrary_call env path w = (Some h, add_events [LoadLibrary path] w)"
  by (simp add: LoadLibrary_call_def emit_add)

lemma LoadLibrary_Inl:
  "p_load_library env (calls is_LoadLibrary w) path = Inl c \<Longrightarrow>
   LoadLibrary_call env path w = (None, (add_events [LoadLibrary path] w)\<lparr>w_last_error := c\<rparr>)"
  by (simp add: LoadLibrary_call_def emit_add)

lemma GetLastError_eq: "GetLastError_call w = (w_last_error w, add_events [GetLastError] w)"
  by (simp add: GetLastError_call_def emit_add)

lemma length_loaded_libraries: "length (loaded_libraries env k paths) \<le> length paths"
  by (induction paths arbitrary: k) (auto split: sum.splits)

lemma win32_list_ok:
  "length (loaded_libraries env (calls is_LoadLibrary w) paths) = length paths \<Longrightarrow>
   win32_list env paths w = (None, add_events (map LoadLibrary paths) w)"
proof (induction paths arbitrary: w)
  case Nil
  then show ?case by simp
next
  case (Cons path paths)
  from Cons.prems obtain h where h: "p_load_library env (calls is_LoadLibrary w) path = Inr h"
    by (cases "p_load_library env (calls is_LoadLibrary w) path") auto
  have k: "calls is_LoadLibrary (add_events [LoadLibrary path] w) = Suc (calls is_LoadLibrary w)"
    by simp
  from Cons.prems h
  have "length (loaded_libraries env (calls is_LoadLibrary (add_events [LoadLibrary path] w)) paths)
          = length paths"
    by (simp only: k) simp
  from Cons.IH[OF this] h show ?case
    by (simp add: LoadLibrary_Inr)
qed

lemma win32_list_fail:
  "length (loaded_libraries env (calls is_LoadLibrary w) paths) = j \<Longrightarrow> j < length paths \<Longrightarrow>
   \<exists>c. p_load_library env (calls is_LoadLibrary w + j) (paths ! j) = Inl c \<and>
     win32_list env paths w =
       (Some (Exit 9),
        (add_events (map LoadLibrary (take j paths) @ [LoadLibrary (paths ! j)]
           @ win32_report env
               (''error: '' @ dec (unat c) @ '', could not load dependent shared library ''
                      @ paths ! j @ [CHR 0x0A])) w)\<lparr>w_last_error := c\<rparr>)"
proof (induction paths arbitrary: w j)
  case Nil
  then show ?case by simp
next
  case (Cons path paths)
  show ?case
  proof (cases "p_load_library env (calls is_LoadLibrary w) path")
    case (Inl c)
    with Cons.prems have "j = 0" by simp
    with Inl show ?thesis
      by (simp add: LoadLibrary_Inl GetLastError_eq error_fd_eq fputs_def emit_add
          win32_report_def)
  next
    case (Inr h)
    let ?w2 = "add_events [LoadLibrary path] w"
    have k: "calls is_LoadLibrary ?w2 = Suc (calls is_LoadLibrary w)" by simp
    from Cons.prems Inr obtain j' where j': "j = Suc j'"
      and len: "length (loaded_libraries env (Suc (calls is_LoadLibrary w)) paths) = j'"
      and lt: "j' < length paths"
      by (cases j) auto
    from len have "length (loaded_libraries env (calls is_LoadLibrary ?w2) paths) = j'"
      by (simp only: k)
    from Cons.IH[OF this lt] obtain c where
      t: "p_load_library env (calls is_LoadLibrary ?w2 + j') (paths ! j') = Inl c" and
      r: "win32_list env paths ?w2 =
           (Some (Exit 9),
            (add_events (map LoadLibrary (take j' paths) @ [LoadLibrary (paths ! j')]
               @ win32_report env
                   (''error: '' @ dec (unat c) @ '', could not load dependent shared library ''
                      @ paths ! j' @ [CHR 0x0A])) ?w2)\<lparr>w_last_error := c\<rparr>)"
      by blast
    from t have "p_load_library env (calls is_LoadLibrary w + j) ((path # paths) ! j) = Inl c"
      by (simp only: k j') simp
    moreover from r Inr j'
    have "win32_list env (path # paths) w =
       (Some (Exit 9),
        (add_events (map LoadLibrary (take j (path # paths)) @ [LoadLibrary ((path # paths) ! j)]
           @ win32_report env
               (''error: '' @ dec (unat c) @ '', could not load dependent shared library ''
                      @ (path # paths) ! j @ [CHR 0x0A])) w)\<lparr>w_last_error := c\<rparr>)"
      by (simp add: LoadLibrary_Inr)
    ultimately show ?thesis by blast
  qed
qed

lemma filter_LoadLibrary_map [simp]: "length (filter is_LoadLibrary (map LoadLibrary paths)) = length paths"
  by (induction paths) auto

lemma filter_LoadLibrary_cleanup [simp]: "filter is_LoadLibrary (cleanup_events t) = []"
  by (simp add: cleanup_events_def)

lemma main_eq_win32:
  "3 < length argv \<Longrightarrow> argv ! 2 \<noteq> ''__dummy_mirror_test'' \<Longrightarrow>
   main Win32 env argv w =
     main_win32 env argv (argv ! 2) (last argv) (length argv - 4)
       (add_events (cleanup_events (argv ! 1)) w)"
proof -
  assume argc: "3 < length argv" and lib: "argv ! 2 \<noteq> ''__dummy_mirror_test''"
  from argc have "argv \<noteq> []" by auto
  then have "argv ! (length argv - 1) = last argv"
    by (simp add: last_conv_nth)
  with argc lib show ?thesis
    by (simp add: main_def Let_def cleanup_events_def snd_unlink)
qed

lemma run_win32_behaviour:
  assumes argc: "3 < length argv" and lib: "argv ! 2 \<noteq> ''__dummy_mirror_test''"
  shows "run Win32 env argv stale code = win32_behaviour env argv"
proof -
  let ?paths = "dependency_args argv"
  let ?w = "add_events (cleanup_events (argv ! 1)) (start stale code)"
  let ?hs = "loaded_libraries env 0 ?paths"
  have k0: "calls is_LoadLibrary ?w = 0"
    by (simp add: start_def calls_def add_events_def)
  have tr: "w_trace ?w = cleanup_events (argv ! 1)"
    by (simp add: start_def)
  have loop: "win32_loop env argv (length argv - 4) 0 ?w = win32_list env ?paths ?w"
    by (simp add: win32_loop_list argv_slice[OF argc])
  show ?thesis
  proof (cases "length ?hs < length ?paths")
    case True
    from win32_list_fail[of env ?w ?paths "length ?hs"] True k0
    obtain c where
      m: "p_load_library env (length ?hs) (?paths ! length ?hs) = Inl c" and
      r: "win32_list env ?paths ?w =
       (Some (Exit 9),
        (add_events (map LoadLibrary (take (length ?hs) ?paths) @ [LoadLibrary (?paths ! length ?hs)]
           @ win32_report env
               (''error: '' @ dec (unat c) @ '', could not load dependent shared library ''
                      @ ?paths ! length ?hs @ [CHR 0x0A])) ?w)\<lparr>w_last_error := c\<rparr>)"
      by auto
    from True m show ?thesis
      by (simp only: run_def main_eq_win32[OF argc lib] main_win32_def loop r)
        (simp add: win32_behaviour_def win32_tail_def Let_def start_def)
  next
    case False
    with length_loaded_libraries[of env 0 ?paths]
    have all: "length ?hs = length ?paths" by simp
    from win32_list_ok[of env ?w ?paths] all k0
    have r: "win32_list env ?paths ?w = (None, add_events (map LoadLibrary ?paths) ?w)"
      by simp
    have k1: "calls is_LoadLibrary (add_events (map LoadLibrary ?paths) ?w) = length ?hs"
      using k0 all by (simp del: add_events_add)
    have k2: "calls is_LoadLibrary
                (add_events (cleanup_events (argv ! 1) @ map LoadLibrary ?paths) (start stale code))
              = length ?hs"
      using k1 by simp
    show ?thesis
    proof (cases "p_load_library env (length ?hs) (argv ! 2)")
      case (Inl c)
      with k1 all show ?thesis
        by (simp only: run_def main_eq_win32[OF argc lib] main_win32_def loop r)
          (simp add: win32_behaviour_def win32_tail_def Let_def start_def LoadLibrary_Inl GetLastError_eq
            error_fd_eq fputs_def emit_add win32_report_def)
    next
      case (Inr h)
      with k1 all show ?thesis
        by (simp only: run_def main_eq_win32[OF argc lib] main_win32_def loop r)
          (cases "p_get_proc_address env h (last argv)";
           simp add: win32_behaviour_def win32_tail_def Let_def start_def LoadLibrary_Inr GetLastError_eq
             error_fd_eq fputs_def emit_add win32_report_def GetProcAddress_call_def)
    qed
  qed
qed

subsection \<open>The answers of the platform along the dependency paths\<close>

lemma loaded_all:
  "length (loaded_handles env k paths) = length paths \<longleftrightarrow>
   (\<forall>i<length paths. \<not> isl (p_dlopen env (k + i) (paths ! i)))"
proof (induction paths arbitrary: k)
  case Nil
  then show ?case by simp
next
  case (Cons path paths)
  show ?case
  proof (cases "p_dlopen env k path")
    case (Inl msg)
    then show ?thesis by auto
  next
    case (Inr h)
    have "(\<forall>i<length (path # paths). \<not> isl (p_dlopen env (k + i) ((path # paths) ! i)))
          \<longleftrightarrow> (\<forall>i<length paths. \<not> isl (p_dlopen env (Suc k + i) (paths ! i)))"
      using Inr by (auto simp: less_Suc_eq_0_disj)
    with Inr Cons.IH[of "Suc k"] show ?thesis by simp
  qed
qed

lemma loaded_nth:
  "i < length (loaded_handles env k paths) \<Longrightarrow>
   p_dlopen env (k + i) (paths ! i) = Inr (loaded_handles env k paths ! i)"
proof (induction paths arbitrary: k i)
  case Nil
  then show ?case by simp
next
  case (Cons path paths)
  show ?case
  proof (cases i)
    case 0
    with Cons.prems show ?thesis by (auto split: sum.splits)
  next
    case (Suc i')
    with Cons.prems Cons.IH[of i' "Suc k"] show ?thesis by (auto split: sum.splits)
  qed
qed

lemma loaded_stop:
  "length (loaded_handles env k paths) < length paths \<Longrightarrow>
   isl (p_dlopen env (k + length (loaded_handles env k paths))
          (paths ! length (loaded_handles env k paths)))"
proof (induction paths arbitrary: k)
  case Nil
  then show ?case by simp
next
  case (Cons path paths)
  with Cons.IH[of "Suc k"] show ?case
    by (cases "p_dlopen env k path") auto
qed

subsection \<open>The kinds of calls in each part of a run\<close>

lemma filter_Dlopen_spec_events_eq:
  "filter is_Dlopen (concat (map spec_events specs)) = map Dlopen (map fst specs)"
  by (induction specs) (auto simp: spec_events_def)

lemma spec_events_all:
  "(\<And>p. P (Dlopen p)) \<Longrightarrow> (\<And>p. P (Unlink p)) \<Longrightarrow>
   \<forall>e\<in>set (concat (map spec_events specs)). P e"
  by (auto simp: spec_events_def split: if_splits)

lemma cleanup_events_all: "(\<And>p. P (Unlink p)) \<Longrightarrow> \<forall>e\<in>set (cleanup_events t). P e"
  by (auto simp: cleanup_events_def split: if_splits)

lemma report_events_all:
  "P Dlerror \<Longrightarrow> (\<And>p. P (Fopen p)) \<Longrightarrow> (\<And>s. P (Write (error_sink env) s)) \<Longrightarrow>
   \<forall>e\<in>set (report_events env msg). P e"
  by (auto simp: report_events_def error_fd_calls_def split: option.splits)

lemma fputs_events_all:
  "P Dlerror \<Longrightarrow> (\<And>p. P (Fopen p)) \<Longrightarrow> (\<And>s. P (Write (error_sink env) s)) \<Longrightarrow>
   \<forall>e\<in>set (fputs_events env code msg). P e"
  by (auto simp: fputs_events_def argument_calls_def error_fd_calls_def
      split: option.splits argument_order.splits)

lemma written_append [simp]: "written f (xs @ ys) = written f xs @ written f ys"
  by (induction f xs rule: written.induct) auto


lemma written_report [simp]: "written (error_sink env) (report_events env msg) = msg"
  by (simp add: report_events_def error_fd_calls_def split: option.splits)

lemma written_fputs_events [simp]:
  "written (error_sink env) (fputs_events env code msg) = msg"
  by (simp add: fputs_events_def argument_calls_def error_fd_calls_def
      split: option.splits argument_order.splits)

subsection \<open>The paths of the POSIX build\<close>

lemma dependency_open_failure_posix:
  assumes "3 < length argv" and "argv ! 2 \<noteq> ''__dummy_mirror_test''"
    and "\<exists>k<length (dependency_paths argv). isl (p_dlopen env k (dependency_paths argv ! k))"
  shows "fst (run Posix env argv stale code) = Exit 9
    \<and> (\<exists>k msg pre.
          k < length (dependency_paths argv)
          \<and> p_dlopen env k (dependency_paths argv ! k) = Inl msg
          \<and> filter is_Dlopen pre = map Dlopen (take k (dependency_paths argv))
          \<and> snd (run Posix env argv stale code) =
              pre @ [Dlopen (dependency_paths argv ! k)] @ argument_calls env 9
              @ [Write (error_sink env) msg])
    \<and> (\<forall>e\<in>set (snd (run Posix env argv stale code)). \<not> is_Dlclose e)"
proof -
  let ?specs = "dependency_specs (dependency_args argv)"
  let ?ps = "dependency_paths argv"
  let ?j = "length (loaded_handles env 0 ?ps)"
  let ?pre = "cleanup_events (argv ! 1) @ concat (map spec_events (take ?j ?specs))"
  have ps: "map fst ?specs = ?ps" by (rule dependency_paths_specs)
  then have len: "length ?specs = length ?ps" by (metis length_map)
  from assms(3) loaded_all[of env 0 ?ps] length_loaded_handles[of env 0 ?ps]
  have lt: "?j < length ?ps" by (auto simp: le_less)
  from loaded_stop[of env 0 ?ps] lt obtain msg where
    msg: "p_dlopen env ?j (?ps ! ?j) = Inl msg"
    by (cases "p_dlopen env ?j (?ps ! ?j)") auto
  from lt msg len have r: "run Posix env argv stale code =
      (Exit 9, ?pre @ [Dlopen (?ps ! ?j)] @ fputs_events env 9 msg)"
    by (simp add: run_posix_behaviour[OF assms(1,2)] posix_behaviour_def posix_tail_def Let_def)
  have pre: "filter is_Dlopen ?pre = map Dlopen (take ?j ?ps)"
    by (simp add: filter_Dlopen_spec_events_eq ps[symmetric] take_map)
  have "snd (run Posix env argv stale code) =
          ?pre @ [Dlopen (?ps ! ?j)] @ argument_calls env 9 @ [Write (error_sink env) msg]"
    by (simp add: r fputs_events_def)
  with lt msg pre have mid: "\<exists>k msg pre.
          k < length ?ps \<and> p_dlopen env k (?ps ! k) = Inl msg
          \<and> filter is_Dlopen pre = map Dlopen (take k ?ps)
          \<and> snd (run Posix env argv stale code) =
              pre @ [Dlopen (?ps ! k)] @ argument_calls env 9
              @ [Write (error_sink env) msg]"
    by blast
  have "\<forall>e\<in>set (snd (run Posix env argv stale code)). \<not> is_Dlclose e"
  proof -
    have "\<forall>e\<in>set (cleanup_events (argv ! 1)). \<not> is_Dlclose e"
      by (rule cleanup_events_all) simp
    moreover have "\<forall>e\<in>set (concat (map spec_events (take ?j ?specs))). \<not> is_Dlclose e"
      by (rule spec_events_all) simp_all
    moreover have "\<forall>e\<in>set (fputs_events env 9 msg). \<not> is_Dlclose e"
      by (rule fputs_events_all) simp_all
    ultimately show ?thesis
      unfolding r by (simp add: ball_Un)
  qed
  with r mid show ?thesis by simp
qed

lemma run_posix_all_loaded:
  assumes "3 < length argv" and "argv ! 2 \<noteq> ''__dummy_mirror_test''"
    and "\<forall>k<length (dependency_paths argv). \<not> isl (p_dlopen env k (dependency_paths argv ! k))"
  shows "run Posix env argv stale code =
     (let hs = loaded_handles env 0 (dependency_paths argv);
          pre = cleanup_events (argv ! 1)
                @ concat (map spec_events (dependency_specs (dependency_args argv)))
      in case p_dlopen env (length (dependency_paths argv)) (argv ! 2) of
           Inl msg \<Rightarrow> (Exit 10, pre @ [Dlopen (argv ! 2)] @ fputs_events env 10 msg)
         | Inr h \<Rightarrow>
             (case p_dlsym env h (last argv) of
                Inl msg \<Rightarrow>
                  (Exit 11,
                   pre @ [Dlopen (argv ! 2), Dlerror, Dlsym h (last argv)]
                   @ report_events env msg)
              | Inr f \<Rightarrow>
                  (if p_invoke env f then
                     (Exit 0,
                      pre @ [Dlopen (argv ! 2), Dlerror, Dlsym h (last argv), Dlerror,
                             Invoke f, Dlclose (Some h)]
                      @ map (\<lambda>d. Dlclose (Some d)) hs)
                   else
                     (No_return,
                      pre @ [Dlopen (argv ! 2), Dlerror, Dlsym h (last argv), Dlerror,
                             Invoke f]))))"
proof -
  let ?specs = "dependency_specs (dependency_args argv)"
  let ?ps = "dependency_paths argv"
  have ps: "map fst ?specs = ?ps" by (rule dependency_paths_specs)
  then have len: "length ?specs = length ?ps" by (metis length_map)
  from assms(3) loaded_all[of env 0 ?ps] have all: "length (loaded_handles env 0 ?ps) = length ?ps"
    by simp
  show ?thesis
    by (simp add: run_posix_behaviour[OF assms(1,2)] posix_behaviour_def posix_tail_def Let_def
        all len[symmetric] split: sum.split)
qed


lemma symbol_resolution_posix:
  assumes "3 < length argv" and "argv ! 2 \<noteq> ''__dummy_mirror_test''"
    and "\<forall>k<length (dependency_paths argv). \<not> isl (p_dlopen env k (dependency_paths argv ! k))"
    and "p_dlopen env (length (dependency_paths argv)) (argv ! 2) = Inr h"
  shows "(\<exists>pre post. snd (run Posix env argv stale code) =
            pre @ [Dlopen (argv ! 2), Dlerror, Dlsym h (last argv)] @ post
          \<and> (\<forall>e\<in>set pre. \<not> is_Dlsym e))
    \<and> (\<forall>msg. p_dlsym env h (last argv) = Inl msg \<longrightarrow>
          fst (run Posix env argv stale code) = Exit 11
          \<and> (\<exists>pre. snd (run Posix env argv stale code) =
                pre @ [Dlsym h (last argv), Dlerror] @ error_fd_calls env
                @ [Write (error_sink env) msg])
          \<and> (\<forall>e\<in>set (snd (run Posix env argv stale code)). \<not> is_Invoke e))
    \<and> (\<not> isl (p_dlsym env h (last argv)) \<longrightarrow> fst (run Posix env argv stale code) \<noteq> Exit 11)"
proof -
  let ?pre = "cleanup_events (argv ! 1)
              @ concat (map spec_events (dependency_specs (dependency_args argv)))"
  let ?run = "run Posix env argv stale code"
  note r = run_posix_all_loaded[OF assms(1,2,3), of stale code, unfolded assms(4) Let_def sum.case]
  have c: "\<forall>e\<in>set (cleanup_events (argv ! 1)). \<not> is_Dlsym e \<and> \<not> is_Invoke e"
    by (rule cleanup_events_all) simp
  have d: "\<forall>e\<in>set (concat (map spec_events (dependency_specs (dependency_args argv)))).
             \<not> is_Dlsym e \<and> \<not> is_Invoke e"
    by (rule spec_events_all) simp_all
  have pre: "\<forall>e\<in>set ?pre. \<not> is_Dlsym e \<and> \<not> is_Invoke e"
    using c d by (simp add: ball_Un)
  have "\<exists>post. snd ?run = ?pre @ [Dlopen (argv ! 2), Dlerror, Dlsym h (last argv)] @ post"
    by (cases "p_dlsym env h (last argv)") (simp_all add: r)
  with pre have 1: "\<exists>pre post. snd ?run =
            pre @ [Dlopen (argv ! 2), Dlerror, Dlsym h (last argv)] @ post
          \<and> (\<forall>e\<in>set pre. \<not> is_Dlsym e)"
    by blast
  have 2: "fst ?run = Exit 11
          \<and> (\<exists>pre. snd ?run =
                pre @ [Dlsym h (last argv), Dlerror] @ error_fd_calls env
                @ [Write (error_sink env) msg])
          \<and> (\<forall>e\<in>set (snd ?run). \<not> is_Invoke e)"
    if m: "p_dlsym env h (last argv) = Inl msg" for msg
  proof -
    have rr: "?run = (Exit 11, ?pre @ [Dlopen (argv ! 2), Dlerror, Dlsym h (last argv)]
                   @ report_events env msg)"
      by (simp add: r m)
    have e: "\<forall>e\<in>set (report_events env msg). \<not> is_Invoke e"
      by (rule report_events_all) simp_all
    have "snd ?run = (?pre @ [Dlopen (argv ! 2), Dlerror]) @ [Dlsym h (last argv), Dlerror]
            @ error_fd_calls env @ [Write (error_sink env) msg]"
      by (simp add: rr report_events_def)
    then have "\<exists>pre. snd ?run = pre @ [Dlsym h (last argv), Dlerror]
            @ error_fd_calls env @ [Write (error_sink env) msg]"
      by blast
    moreover have "\<forall>e\<in>set (snd ?run). \<not> is_Invoke e"
      using pre e by (simp add: rr ball_Un)
    ultimately show ?thesis by (simp add: rr)
  qed
  have 3: "fst ?run \<noteq> Exit 11" if "\<not> isl (p_dlsym env h (last argv))"
    using that by (cases "p_dlsym env h (last argv)") (simp_all add: r)
  from 1 2 3 show ?thesis by blast
qed

lemma posix_tail_no_unlink: "\<forall>e\<in>set (snd (posix_tail env argv)). \<not> is_Unlink e"
proof -
  have "\<forall>e\<in>set (report_events env msg). \<not> is_Unlink e" for msg
    by (rule report_events_all) simp_all
  moreover have "\<forall>e\<in>set (fputs_events env c msg). \<not> is_Unlink e" for c msg
    by (rule fputs_events_all) simp_all
  ultimately show ?thesis
    by (simp add: posix_tail_def Let_def split: sum.split)
qed

lemma filter_Unlink_spec_events:
  "filter is_Unlink (concat (map spec_events specs)) = map (\<lambda>s. Unlink (fst s)) (filter snd specs)"
  by (induction specs) (auto simp: spec_events_def)

lemma filter_Unlink_cleanup: "filter is_Unlink (cleanup_events t) = cleanup_events t"
  by (simp add: cleanup_events_def)

lemma unlink_after_load_posix:
  assumes "3 < length argv" and "argv ! 2 \<noteq> ''__dummy_mirror_test''"
  shows "(\<exists>rest. snd (run Posix env argv stale code) =
           cleanup_events (argv ! 1)
           @ concat (map spec_events
                       (take (length (loaded_handles env 0 (dependency_paths argv)))
                          (dependency_specs (dependency_args argv))))
           @ rest
         \<and> (\<forall>e\<in>set rest. \<not> is_Unlink e))
    \<and> filter is_Unlink (snd (run Posix env argv stale code)) =
        cleanup_events (argv ! 1)
        @ map (\<lambda>spec. Unlink (fst spec))
            (filter snd
               (take (length (loaded_handles env 0 (dependency_paths argv)))
                  (dependency_specs (dependency_args argv))))"
proof -
  have "filter is_Unlink (snd (posix_tail env argv)) = []"
    using posix_tail_no_unlink[of env argv] by (simp add: filter_empty_conv)
  then show ?thesis
    using posix_tail_no_unlink[of env argv]
    by (simp add: run_posix_behaviour[OF assms] posix_behaviour_def filter_Unlink_spec_events
        filter_Unlink_cleanup)
qed

lemma invoke_and_release_posix:
  assumes "3 < length argv" and "argv ! 2 \<noteq> ''__dummy_mirror_test''"
    and "\<forall>k<length (dependency_paths argv). \<not> isl (p_dlopen env k (dependency_paths argv ! k))"
    and "p_dlopen env (length (dependency_paths argv)) (argv ! 2) = Inr h"
    and "p_dlsym env h (last argv) = Inr f"
  shows "filter is_Invoke (snd (run Posix env argv stale code)) = [Invoke f]
    \<and> (p_invoke env f \<longrightarrow>
          fst (run Posix env argv stale code) = Exit 0
          \<and> (\<exists>pre. snd (run Posix env argv stale code) =
                pre @ [Invoke f, Dlclose (Some h)]
                @ map (\<lambda>d. Dlclose (Some d)) (loaded_handles env 0 (dependency_paths argv))
              \<and> (\<forall>e\<in>set pre. \<not> is_Dlclose e)))
    \<and> (\<forall>k<length (dependency_paths argv).
          p_dlopen env k (dependency_paths argv ! k)
          = Inr (loaded_handles env 0 (dependency_paths argv) ! k))"
proof -
  let ?pre = "cleanup_events (argv ! 1)
              @ concat (map spec_events (dependency_specs (dependency_args argv)))"
  let ?run = "run Posix env argv stale code"
  let ?ps = "dependency_paths argv"
  note r = run_posix_all_loaded[OF assms(1,2,3), of stale code,
      unfolded assms(4) assms(5) Let_def sum.case]
  have c: "\<forall>e\<in>set (cleanup_events (argv ! 1)). \<not> is_Dlclose e \<and> \<not> is_Invoke e"
    by (rule cleanup_events_all) simp
  have d: "\<forall>e\<in>set (concat (map spec_events (dependency_specs (dependency_args argv)))).
             \<not> is_Dlclose e \<and> \<not> is_Invoke e"
    by (rule spec_events_all) simp_all
  from c d have pre: "\<forall>e\<in>set ?pre. \<not> is_Dlclose e \<and> \<not> is_Invoke e"
    by (simp add: ball_Un)
  then have fpre: "filter is_Invoke ?pre = []"
    by (simp add: filter_empty_conv ball_Un)
  have fcl: "filter is_Invoke (map (\<lambda>d. Dlclose (Some d)) hs) = []" for hs
    by (simp add: filter_empty_conv)
  have 1: "filter is_Invoke (snd ?run) = [Invoke f]"
    using fpre fcl by (simp add: r)
  have 2: "fst ?run = Exit 0
          \<and> (\<exists>pre. snd ?run =
                pre @ [Invoke f, Dlclose (Some h)]
                @ map (\<lambda>d. Dlclose (Some d)) (loaded_handles env 0 ?ps)
              \<and> (\<forall>e\<in>set pre. \<not> is_Dlclose e))"
    if inv: "p_invoke env f"
  proof -
    have "snd ?run = (?pre @ [Dlopen (argv ! 2), Dlerror, Dlsym h (last argv), Dlerror])
            @ [Invoke f, Dlclose (Some h)]
            @ map (\<lambda>d. Dlclose (Some d)) (loaded_handles env 0 ?ps)"
      by (simp add: r inv)
    moreover have "\<forall>e\<in>set (?pre @ [Dlopen (argv ! 2), Dlerror, Dlsym h (last argv), Dlerror]).
                     \<not> is_Dlclose e"
      using pre by (simp add: ball_Un)
    ultimately have "\<exists>pre. snd ?run =
                pre @ [Invoke f, Dlclose (Some h)]
                @ map (\<lambda>d. Dlclose (Some d)) (loaded_handles env 0 ?ps)
              \<and> (\<forall>e\<in>set pre. \<not> is_Dlclose e)"
      by blast
    then show ?thesis by (simp add: r inv)
  qed
  from assms(3) loaded_all[of env 0 ?ps] have all: "length (loaded_handles env 0 ?ps) = length ?ps"
    by simp
  have 3: "\<forall>k<length ?ps. p_dlopen env k (?ps ! k) = Inr (loaded_handles env 0 ?ps ! k)"
    using loaded_nth[of _ env 0 ?ps] all by simp
  from 1 2 3 show ?thesis by blast
qed

subsection \<open>A run is the cleanup and the rest\<close>

lemma run_after_cleanup:
  assumes "3 < length argv"
  shows "run b env argv stale code =
           (fst (after_cleanup b env argv),
            cleanup_events (argv ! 1) @ snd (after_cleanup b env argv))"
proof (cases "argv ! 2 = ''__dummy_mirror_test''")
  case True
  from assms have "argv \<noteq> []" by auto
  then have "argv ! (length argv - 1) = last argv"
    by (simp add: last_conv_nth)
  with assms True show ?thesis
    by (simp add: run_def main_def Let_def start_def snd_unlink printf_def emit_add
        after_cleanup_def cleanup_events_def)
next
  case False
  with assms show ?thesis
    by (cases b)
      (simp_all add: run_posix_behaviour run_win32_behaviour posix_behaviour_def
        win32_behaviour_def after_cleanup_def)
qed

lemma args_update:
  assumes "3 < length argv" and "i < 2"
  shows "dependency_args (argv[i := x]) = dependency_args argv"
    and "dependency_paths (argv[i := x]) = dependency_paths argv"
    and "(argv[i := x]) ! 2 = argv ! 2"
    and "last (argv[i := x]) = last argv"
proof -
  show a: "dependency_args (argv[i := x]) = dependency_args argv"
    using assms by (simp add: dependency_args_def drop_update_cancel)
  show "dependency_paths (argv[i := x]) = dependency_paths argv"
    by (simp add: dependency_paths_def a)
  show "(argv[i := x]) ! 2 = argv ! 2"
    using assms by simp
  from assms have "argv \<noteq> []" by auto
  with assms show "last (argv[i := x]) = last argv"
    by (auto simp add: last_list_update)
qed

lemma after_cleanup_update:
  "3 < length argv \<Longrightarrow> i < 2 \<Longrightarrow> after_cleanup b env (argv[i := x]) = after_cleanup b env argv"
  by (cases b) (simp_all add: after_cleanup_def posix_tail_def win32_tail_def args_update)

lemma loaded_handles_unlink [simp]:
  "loaded_handles (env\<lparr>p_unlink := u\<rparr>) k paths = loaded_handles env k paths"
  by (induction paths arbitrary: k) (auto split: sum.splits)

lemma loaded_libraries_unlink [simp]:
  "loaded_libraries (env\<lparr>p_unlink := u\<rparr>) k paths = loaded_libraries env k paths"
  by (induction paths arbitrary: k) (auto split: sum.splits)

lemma error_fd_unlink [simp]:
  "error_sink (env\<lparr>p_unlink := u\<rparr>) = error_sink env"
  "error_fd_calls (env\<lparr>p_unlink := u\<rparr>) = error_fd_calls env"
  by (simp_all add: error_sink_def error_fd_calls_def split: option.split)

lemma report_events_unlink [simp]:
  "report_events (env\<lparr>p_unlink := u\<rparr>) msg = report_events env msg"
  "fputs_events (env\<lparr>p_unlink := u\<rparr>) c msg = fputs_events env c msg"
  "win32_report (env\<lparr>p_unlink := u\<rparr>) msg = win32_report env msg"
  by (simp_all add: report_events_def fputs_events_def argument_calls_def win32_report_def
      split: argument_order.split)

lemma tail_unlink [simp]:
  "posix_tail (env\<lparr>p_unlink := u\<rparr>) argv = posix_tail env argv"
  "win32_tail (env\<lparr>p_unlink := u\<rparr>) argv = win32_tail env argv"
  by (simp_all add: posix_tail_def win32_tail_def Let_def cong: sum.case_cong)

lemma after_cleanup_unlink:
  "after_cleanup b (env\<lparr>p_unlink := u\<rparr>) argv = after_cleanup b env argv"
  by (cases b) (simp_all add: after_cleanup_def)

lemma spec_events_head:
  "concat (map spec_events specs) @ Dlopen q # evs \<noteq> Unlink p # rest"
  by (cases specs) (simp_all add: spec_events_def)

lemma load_events_head:
  "map LoadLibrary paths @ LoadLibrary q # evs \<noteq> Unlink p # rest"
  by (cases paths) simp_all

lemma loaded_libraries_stop:
  "length (loaded_libraries env k paths) < length paths \<Longrightarrow>
   isl (p_load_library env (k + length (loaded_libraries env k paths))
          (paths ! length (loaded_libraries env k paths)))"
proof (induction paths arbitrary: k)
  case Nil
  then show ?case by simp
next
  case (Cons path paths)
  with Cons.IH[of "Suc k"] show ?case
    by (cases "p_load_library env k path") auto
qed

lemma posix_tail_head:
  "\<exists>out q evs. posix_tail env argv = (out, Dlopen q # evs) \<and> out \<noteq> Memory_fault"
proof (cases "length (loaded_handles env 0 (dependency_paths argv)) < length (dependency_paths argv)")
  case True
  with loaded_stop[of env 0 "dependency_paths argv"] show ?thesis
    by (auto simp: posix_tail_def Let_def split: sum.splits)
next
  case False
  then show ?thesis
    by (auto simp: posix_tail_def Let_def split: sum.splits)
qed

lemma win32_tail_head:
  "\<exists>out q evs. win32_tail env argv = (out, LoadLibrary q # evs) \<and> out \<noteq> Memory_fault"
proof (cases "length (loaded_libraries env 0 (dependency_args argv)) < length (dependency_args argv)")
  case True
  with loaded_libraries_stop[of env 0 "dependency_args argv"] show ?thesis
    by (auto simp: win32_tail_def Let_def split: sum.splits)
next
  case False
  then show ?thesis
    by (auto simp: win32_tail_def Let_def split: sum.splits)
qed

lemma after_cleanup_head: "snd (after_cleanup b env argv) \<noteq> Unlink p # rest"
proof (cases "argv ! 2 = ''__dummy_mirror_test''")
  case True
  then show ?thesis by (simp add: after_cleanup_def)
next
  case False
  show ?thesis
  proof (cases b)
    case Posix
    from posix_tail_head[of env argv] obtain out q evs where
      "posix_tail env argv = (out, Dlopen q # evs)" by blast
    with False Posix show ?thesis
      by (simp add: after_cleanup_def spec_events_head)
  next
    case Win32
    from win32_tail_head[of env argv] obtain out q evs where
      "win32_tail env argv = (out, LoadLibrary q # evs)" by blast
    with False Win32 show ?thesis
      by (simp add: after_cleanup_def load_events_head)
  qed
qed

lemma run_no_memory_fault: "fst (run b env argv stale code) \<noteq> Memory_fault"
proof (cases "3 < length argv")
  case False
  then show ?thesis by (simp add: run_def main_def start_def)
next
  case True
  from posix_tail_head[of env argv] win32_tail_head[of env argv] show ?thesis
    by (cases b) (auto simp: run_after_cleanup[OF True] after_cleanup_def)
qed

lemma win32_report_all:
  "P GetLastError \<Longrightarrow> (\<And>p. P (Fopen p)) \<Longrightarrow> (\<And>s. P (Write (error_sink env) s)) \<Longrightarrow>
   \<forall>e\<in>set (win32_report env msg). P e"
  by (auto simp: win32_report_def error_fd_calls_def split: option.splits)

lemma specs_from_trailing_marker: "specs_from u (args @ [''-'']) = specs_from u args"
  by (induction args arbitrary: u) (simp_all add: is_marker_iff)

lemma after_cleanup_posix_cong:
  "argv ! 2 = argv' ! 2 \<Longrightarrow> last argv = last argv' \<Longrightarrow>
   dependency_specs (dependency_args argv) = dependency_specs (dependency_args argv') \<Longrightarrow>
   dependency_paths argv = dependency_paths argv' \<Longrightarrow>
   after_cleanup Posix env argv = after_cleanup Posix env argv'"
  by (simp add: after_cleanup_def posix_tail_def)

lemma symbol_name_is_last_both:
  "(3 < length argv \<longrightarrow>
      (\<forall>e\<in>set (snd (run b env argv stale code)).
         (\<forall>h s. e = Dlsym h s \<longrightarrow> s = last argv)
         \<and> (\<forall>h s. e = GetProcAddress h s \<longrightarrow> s = last argv)))
   \<and> run Posix env (prog # tmp # lib # deps @ [''-'', name]) stale code
     = run Posix env (prog # tmp # lib # deps @ [name]) stale code"
proof
  let ?P = "\<lambda>e. (\<forall>h s. e = Dlsym h s \<longrightarrow> s = last argv)
                \<and> (\<forall>h s. e = GetProcAddress h s \<longrightarrow> s = last argv)"
  show "3 < length argv \<longrightarrow> (\<forall>e\<in>set (snd (run b env argv stale code)). ?P e)"
  proof
    assume argc: "3 < length argv"
    have c: "\<forall>e\<in>set (cleanup_events (argv ! 1)). ?P e"
      by (rule cleanup_events_all) simp
    have r: "\<forall>e\<in>set (report_events env msg). ?P e" for msg
      by (rule report_events_all) simp_all
    have r2: "\<forall>e\<in>set (fputs_events env c msg). ?P e" for c msg
      by (rule fputs_events_all) simp_all
    have wr: "\<forall>e\<in>set (win32_report env msg). ?P e" for msg
      by (rule win32_report_all) simp_all
    have d: "\<forall>e\<in>set (concat (map spec_events specs)). ?P e" for specs
      by (rule spec_events_all) simp_all
    have pt: "\<forall>e\<in>set (snd (posix_tail env argv)). ?P e"
      using r r2 by (simp add: posix_tail_def Let_def ball_Un split: sum.split)
    have wt: "\<forall>e\<in>set (snd (win32_tail env argv)). ?P e"
      using wr by (simp add: win32_tail_def Let_def ball_Un split: sum.split)
    have "\<forall>e\<in>set (snd (after_cleanup b env argv)). ?P e"
      using pt wt d by (cases b) (simp_all add: after_cleanup_def ball_Un)
    with c show "\<forall>e\<in>set (snd (run b env argv stale code)). ?P e"
      by (simp add: run_after_cleanup[OF argc] ball_Un)
  qed
next
  let ?a = "prog # tmp # lib # deps @ [''-'', name]"
  let ?b = "prog # tmp # lib # deps @ [name]"
  have la: "3 < length ?a" and lb: "3 < length ?b" by simp_all
  have da: "dependency_args ?a = deps @ [''-'']" and db: "dependency_args ?b = deps"
    by (simp_all add: dependency_args_def)
  have specs: "dependency_specs (dependency_args ?a) = dependency_specs (dependency_args ?b)"
    unfolding da db by (simp add: specs_from_False[symmetric] specs_from_trailing_marker)
  have paths: "dependency_paths ?a = dependency_paths ?b"
    by (simp add: dependency_paths_def da db)
  have "after_cleanup Posix env ?a = after_cleanup Posix env ?b"
    by (rule after_cleanup_posix_cong[OF _ _ specs paths]) simp_all
  then show "run Posix env ?a stale code = run Posix env ?b stale code"
    by (simp add: run_after_cleanup[OF la] run_after_cleanup[OF lb])
qed

subsection \<open>The paths of the Windows build\<close>

text \<open>
  The Windows build (lines 97 to 122) has no marker, unlinks no dependency and releases no
  handle: there \<open>-\<close> is loaded as a library like any other dependency argument.
\<close>

lemma loaded_libraries_all:
  "length (loaded_libraries env k paths) = length paths \<longleftrightarrow>
   (\<forall>i<length paths. \<not> isl (p_load_library env (k + i) (paths ! i)))"
proof (induction paths arbitrary: k)
  case Nil
  then show ?case by simp
next
  case (Cons path paths)
  show ?case
  proof (cases "p_load_library env k path")
    case (Inl c)
    then show ?thesis by auto
  next
    case (Inr h)
    have "(\<forall>i<length (path # paths). \<not> isl (p_load_library env (k + i) ((path # paths) ! i)))
          \<longleftrightarrow> (\<forall>i<length paths. \<not> isl (p_load_library env (Suc k + i) (paths ! i)))"
      using Inr by (auto simp: less_Suc_eq_0_disj)
    with Inr Cons.IH[of "Suc k"] show ?thesis by simp
  qed
qed

lemma written_win32_report [simp]: "written (error_sink env) (win32_report env msg) = msg"
  by (simp add: win32_report_def error_fd_calls_def split: option.splits)

lemma load_events_all:
  "(\<And>p. P (LoadLibrary p)) \<Longrightarrow> \<forall>e\<in>set (map LoadLibrary paths). P e"
  by simp

lemma run_win32_all_loaded:
  assumes "3 < length argv" and "argv ! 2 \<noteq> ''__dummy_mirror_test''"
    and "\<forall>k<length (dependency_args argv).
           \<not> isl (p_load_library env k (dependency_args argv ! k))"
  shows "run Win32 env argv stale code =
     (let pre = cleanup_events (argv ! 1) @ map LoadLibrary (dependency_args argv)
      in case p_load_library env (length (dependency_args argv)) (argv ! 2) of
           Inl c \<Rightarrow>
             (Exit 10,
              pre @ [LoadLibrary (argv ! 2)]
              @ win32_report env
                  (''error: '' @ dec (unat c) @ '', could not load shared library ''
                   @ argv ! 2 @ [CHR 0x0A]))
         | Inr h \<Rightarrow>
             (case p_get_proc_address env h (last argv) of
                Inl c \<Rightarrow>
                  (Exit 11,
                   pre @ [LoadLibrary (argv ! 2), GetProcAddress h (last argv)]
                   @ win32_report env
                       (''error: '' @ dec (unat c) @ '' loading symbol: '' @ last argv
                        @ '' from: '' @ argv ! 2 @ [CHR 0x0A]))
              | Inr f \<Rightarrow>
                  (if p_invoke env f then Exit 0 else No_return,
                   pre @ [LoadLibrary (argv ! 2), GetProcAddress h (last argv), Invoke f])))"
proof -
  let ?ps = "dependency_args argv"
  from assms(3) loaded_libraries_all[of env 0 ?ps]
  have all: "length (loaded_libraries env 0 ?ps) = length ?ps"
    by simp
  show ?thesis
    by (simp add: run_win32_behaviour[OF assms(1,2)] win32_behaviour_def win32_tail_def Let_def
        all split: sum.split)
qed

lemma run_win32_dep_failure:
  assumes "3 < length argv" and "argv ! 2 \<noteq> ''__dummy_mirror_test''"
    and "\<exists>k<length (dependency_args argv). isl (p_load_library env k (dependency_args argv ! k))"
  shows "\<exists>k c. k < length (dependency_args argv)
     \<and> p_load_library env k (dependency_args argv ! k) = Inl c
     \<and> run Win32 env argv stale code =
         (Exit 9,
          (cleanup_events (argv ! 1) @ map LoadLibrary (take k (dependency_args argv)))
          @ [LoadLibrary (dependency_args argv ! k), GetLastError] @ error_fd_calls env
          @ [Write (error_sink env)
               (''error: '' @ dec (unat c) @ '', could not load dependent shared library ''
                @ dependency_args argv ! k @ [CHR 0x0A])])"
proof -
  let ?ps = "dependency_args argv"
  let ?j = "length (loaded_libraries env 0 ?ps)"
  from assms(3) loaded_libraries_all[of env 0 ?ps] length_loaded_libraries[of env 0 ?ps]
  have lt: "?j < length ?ps" by (auto simp: le_less)
  from loaded_libraries_stop[of env 0 ?ps] lt obtain c where
    c: "p_load_library env ?j (?ps ! ?j) = Inl c"
    by (cases "p_load_library env ?j (?ps ! ?j)") auto
  from lt c have "run Win32 env argv stale code =
         (Exit 9,
          (cleanup_events (argv ! 1) @ map LoadLibrary (take ?j ?ps))
          @ [LoadLibrary (?ps ! ?j), GetLastError] @ error_fd_calls env
          @ [Write (error_sink env)
               (''error: '' @ dec (unat c) @ '', could not load dependent shared library ''
                @ ?ps ! ?j @ [CHR 0x0A])])"
    by (simp add: run_win32_behaviour[OF assms(1,2)] win32_behaviour_def win32_tail_def Let_def
        win32_report_def)
  with lt c show ?thesis by blast
qed

lemma win32_tail_no_unlink: "\<forall>e\<in>set (snd (win32_tail env argv)). \<not> is_Unlink e"
proof -
  have "\<forall>e\<in>set (win32_report env msg). \<not> is_Unlink e" for msg
    by (rule win32_report_all) simp_all
  then show ?thesis
    by (simp add: win32_tail_def Let_def split: sum.split)
qed

lemma dependency_open_failure_win32:
  assumes "3 < length argv" and "argv ! 2 \<noteq> ''__dummy_mirror_test''"
    and "\<exists>k<length (dependency_args argv). isl (p_load_library env k (dependency_args argv ! k))"
  shows "fst (run Win32 env argv stale code) = Exit 9
    \<and> (\<exists>k c pre.
          k < length (dependency_args argv)
          \<and> p_load_library env k (dependency_args argv ! k) = Inl c
          \<and> filter is_LoadLibrary pre = map LoadLibrary (take k (dependency_args argv))
          \<and> snd (run Win32 env argv stale code) =
              pre @ [LoadLibrary (dependency_args argv ! k), GetLastError] @ error_fd_calls env
              @ [Write (error_sink env)
                   (''error: '' @ dec (unat c) @ '', could not load dependent shared library ''
                    @ dependency_args argv ! k @ [CHR 0x0A])])
    \<and> (\<forall>e\<in>set (snd (run Win32 env argv stale code)). \<not> is_Dlclose e)"
proof -
  from run_win32_dep_failure[OF assms, of stale code] obtain k c where
    k: "k < length (dependency_args argv)" and
    c: "p_load_library env k (dependency_args argv ! k) = Inl c" and
    r: "run Win32 env argv stale code =
         (Exit 9,
          (cleanup_events (argv ! 1) @ map LoadLibrary (take k (dependency_args argv)))
          @ [LoadLibrary (dependency_args argv ! k), GetLastError] @ error_fd_calls env
          @ [Write (error_sink env)
               (''error: '' @ dec (unat c) @ '', could not load dependent shared library ''
                @ dependency_args argv ! k @ [CHR 0x0A])])"
    by blast
  let ?pre = "cleanup_events (argv ! 1) @ map LoadLibrary (take k (dependency_args argv))"
  have pre: "filter is_LoadLibrary ?pre = map LoadLibrary (take k (dependency_args argv))"
    by (simp add: filter_id_conv)
  have 1: "\<exists>k c pre.
          k < length (dependency_args argv)
          \<and> p_load_library env k (dependency_args argv ! k) = Inl c
          \<and> filter is_LoadLibrary pre = map LoadLibrary (take k (dependency_args argv))
          \<and> snd (run Win32 env argv stale code) =
              pre @ [LoadLibrary (dependency_args argv ! k), GetLastError] @ error_fd_calls env
              @ [Write (error_sink env)
                   (''error: '' @ dec (unat c) @ '', could not load dependent shared library ''
                    @ dependency_args argv ! k @ [CHR 0x0A])]"
    using k c pre r by (intro exI[of _ k] exI[of _ c] exI[of _ ?pre]) simp
  have "\<forall>e\<in>set (cleanup_events (argv ! 1)). \<not> is_Dlclose e"
    by (rule cleanup_events_all) simp
  then have 2: "\<forall>e\<in>set (snd (run Win32 env argv stale code)). \<not> is_Dlclose e"
    by (auto simp add: r error_fd_calls_def dest: in_set_takeD split: option.splits)
  from r 1 2 show ?thesis by simp
qed


lemma symbol_resolution_win32:
  assumes "3 < length argv" and "argv ! 2 \<noteq> ''__dummy_mirror_test''"
    and "\<forall>k<length (dependency_args argv).
           \<not> isl (p_load_library env k (dependency_args argv ! k))"
    and "p_load_library env (length (dependency_args argv)) (argv ! 2) = Inr h"
  shows "(\<exists>post. snd (run Win32 env argv stale code) =
          cleanup_events (argv ! 1) @ map LoadLibrary (dependency_args argv)
          @ [LoadLibrary (argv ! 2), GetProcAddress h (last argv)] @ post)
    \<and> (\<forall>c. p_get_proc_address env h (last argv) = Inl c \<longrightarrow>
          fst (run Win32 env argv stale code) = Exit 11
          \<and> (\<exists>pre. snd (run Win32 env argv stale code) =
                pre @ [LoadLibrary (argv ! 2), GetProcAddress h (last argv), GetLastError]
                @ error_fd_calls env
                @ [Write (error_sink env)
                     (''error: '' @ dec (unat c) @ '' loading symbol: '' @ last argv
                      @ '' from: '' @ argv ! 2 @ [CHR 0x0A])])
          \<and> (\<forall>e\<in>set (snd (run Win32 env argv stale code)). \<not> is_Invoke e))
    \<and> (\<not> isl (p_get_proc_address env h (last argv)) \<longrightarrow>
          fst (run Win32 env argv stale code) \<noteq> Exit 11)"
proof -
  let ?pre = "cleanup_events (argv ! 1) @ map LoadLibrary (dependency_args argv)"
  let ?run = "run Win32 env argv stale code"
  note r = run_win32_all_loaded[OF assms(1,2,3), of stale code, unfolded Let_def assms(4)]
  have 1: "\<exists>post. snd ?run =
      cleanup_events (argv ! 1) @ map LoadLibrary (dependency_args argv)
      @ [LoadLibrary (argv ! 2), GetProcAddress h (last argv)] @ post"
    by (cases "p_get_proc_address env h (last argv)") (simp_all add: r)
  have 2: "fst ?run = Exit 11
        \<and> (\<exists>pre. snd ?run =
              pre @ [LoadLibrary (argv ! 2), GetProcAddress h (last argv), GetLastError]
              @ error_fd_calls env
              @ [Write (error_sink env)
                   (''error: '' @ dec (unat c) @ '' loading symbol: '' @ last argv
                    @ '' from: '' @ argv ! 2 @ [CHR 0x0A])])
        \<and> (\<forall>e\<in>set (snd ?run). \<not> is_Invoke e)"
    if c: "p_get_proc_address env h (last argv) = Inl c" for c
  proof -
    let ?msg = "''error: '' @ dec (unat c) @ '' loading symbol: '' @ last argv
                @ '' from: '' @ argv ! 2 @ [CHR 0x0A]"
    have rr: "?run = (Exit 11, ?pre @ [LoadLibrary (argv ! 2), GetProcAddress h (last argv)]
                @ win32_report env ?msg)"
      by (simp add: r c)
    have a: "\<forall>e\<in>set (cleanup_events (argv ! 1)). \<not> is_Invoke e"
      by (rule cleanup_events_all) simp
    have e: "\<forall>e\<in>set (win32_report env ?msg). \<not> is_Invoke e"
      by (rule win32_report_all) simp_all
    have "snd ?run =
          ?pre @ [LoadLibrary (argv ! 2), GetProcAddress h (last argv), GetLastError]
          @ error_fd_calls env @ [Write (error_sink env) ?msg]"
      by (simp add: rr win32_report_def)
    then have "\<exists>pre. snd ?run =
          pre @ [LoadLibrary (argv ! 2), GetProcAddress h (last argv), GetLastError]
          @ error_fd_calls env @ [Write (error_sink env) ?msg]"
      by blast
    moreover have "\<forall>e\<in>set (snd ?run). \<not> is_Invoke e"
      using a e by (simp add: rr ball_Un)
    ultimately show ?thesis by (simp add: rr)
  qed
  have 3: "fst ?run \<noteq> Exit 11" if "\<not> isl (p_get_proc_address env h (last argv))"
    using that by (cases "p_get_proc_address env h (last argv)") (simp_all add: r)
  show ?thesis
    using 1 2 3 by blast
qed

lemma unlink_win32:
  assumes "3 < length argv" and "argv ! 2 \<noteq> ''__dummy_mirror_test''"
  shows "(\<exists>rest. snd (run Win32 env argv stale code) =
           cleanup_events (argv ! 1)
           @ map LoadLibrary
               (take (length (loaded_libraries env 0 (dependency_args argv)))
                  (dependency_args argv))
           @ rest
         \<and> (\<forall>e\<in>set rest. \<not> is_Unlink e))
    \<and> filter is_Unlink (snd (run Win32 env argv stale code)) = cleanup_events (argv ! 1)"
proof -
  have "filter is_Unlink (snd (win32_tail env argv)) = []"
    using win32_tail_no_unlink[of env argv] by (simp add: filter_empty_conv)
  moreover have "filter is_Unlink (map LoadLibrary paths) = []" for paths
    by (simp add: filter_empty_conv)
  ultimately show ?thesis
    using win32_tail_no_unlink[of env argv]
    by (simp add: run_win32_behaviour[OF assms] win32_behaviour_def filter_Unlink_cleanup)
qed

lemma invoke_win32:
  assumes "3 < length argv" and "argv ! 2 \<noteq> ''__dummy_mirror_test''"
    and "\<forall>k<length (dependency_args argv).
           \<not> isl (p_load_library env k (dependency_args argv ! k))"
    and "p_load_library env (length (dependency_args argv)) (argv ! 2) = Inr h"
    and "p_get_proc_address env h (last argv) = Inr f"
  shows "filter is_Invoke (snd (run Win32 env argv stale code)) = [Invoke f]
    \<and> (p_invoke env f \<longrightarrow>
          run Win32 env argv stale code =
            (Exit 0,
             cleanup_events (argv ! 1) @ map LoadLibrary (dependency_args argv)
             @ [LoadLibrary (argv ! 2), GetProcAddress h (last argv), Invoke f]))
    \<and> (\<forall>e\<in>set (snd (run Win32 env argv stale code)). \<not> is_Dlclose e)"
proof -
  let ?pre = "cleanup_events (argv ! 1) @ map LoadLibrary (dependency_args argv)"
  have r: "run Win32 env argv stale code =
      (if p_invoke env f then Exit 0 else No_return,
       ?pre @ [LoadLibrary (argv ! 2), GetProcAddress h (last argv), Invoke f])"
    by (simp add: run_win32_all_loaded[OF assms(1,2,3)] assms(4,5))
  have "\<forall>e\<in>set (cleanup_events (argv ! 1)). \<not> is_Invoke e \<and> \<not> is_Dlclose e"
    by (rule cleanup_events_all) simp
  then have f1: "filter is_Invoke ?pre = []" and f2: "\<forall>e\<in>set ?pre. \<not> is_Dlclose e"
    by (auto simp add: filter_empty_conv)
  from f1 f2 show ?thesis by (simp add: r ball_Un)
qed

lemma resolves_last_argument_posix:
  assumes "3 < length argv" and "argv ! 2 \<noteq> ''__dummy_mirror_test''"
    and "\<forall>k<length (dependency_paths argv). \<not> isl (p_dlopen env k (dependency_paths argv ! k))"
    and "p_dlopen env (length (dependency_paths argv)) (argv ! 2) = Inr h"
  shows "filter is_Dlsym (snd (run Posix env argv stale code)) = [Dlsym h (last argv)]"
proof -
  let ?pre = "cleanup_events (argv ! 1)
              @ concat (map spec_events (dependency_specs (dependency_args argv)))"
  note r = run_posix_all_loaded[OF assms(1,2,3), of stale code, unfolded Let_def assms(4)]
  have "\<forall>e\<in>set (cleanup_events (argv ! 1)). \<not> is_Dlsym e"
    by (rule cleanup_events_all) simp
  moreover
  have "\<forall>e\<in>set (concat (map spec_events (dependency_specs (dependency_args argv)))).
          \<not> is_Dlsym e"
    by (rule spec_events_all) simp_all
  ultimately have p: "filter is_Dlsym ?pre = []"
    by (simp add: filter_empty_conv)
  have "\<forall>e\<in>set (report_events env msg). \<not> is_Dlsym e" for msg
    by (rule report_events_all) simp_all
  then have e: "filter is_Dlsym (report_events env msg) = []" for msg
    by (simp add: filter_empty_conv)
  have c: "filter is_Dlsym (map (\<lambda>d. Dlclose (Some d)) hs) = []" for hs
    by (simp add: filter_empty_conv)
  from p e c show ?thesis
    by (cases "p_dlsym env h (last argv)") (simp_all add: r)
qed

lemma resolves_last_argument_win32:
  assumes "3 < length argv" and "argv ! 2 \<noteq> ''__dummy_mirror_test''"
    and "\<forall>k<length (dependency_args argv).
           \<not> isl (p_load_library env k (dependency_args argv ! k))"
    and "p_load_library env (length (dependency_args argv)) (argv ! 2) = Inr h"
  shows "filter is_GetProcAddress (snd (run Win32 env argv stale code))
         = [GetProcAddress h (last argv)]"
proof -
  let ?pre = "cleanup_events (argv ! 1) @ map LoadLibrary (dependency_args argv)"
  note r = run_win32_all_loaded[OF assms(1,2,3), of stale code, unfolded Let_def assms(4)]
  have "\<forall>e\<in>set (cleanup_events (argv ! 1)). \<not> is_GetProcAddress e"
    by (rule cleanup_events_all) simp
  then have p: "filter is_GetProcAddress ?pre = []"
    by (simp add: filter_empty_conv)
  have "\<forall>e\<in>set (win32_report env msg). \<not> is_GetProcAddress e" for msg
    by (rule win32_report_all) simp_all
  then have e: "filter is_GetProcAddress (win32_report env msg) = []" for msg
    by (simp add: filter_empty_conv)
  from p e show ?thesis
    by (cases "p_get_proc_address env h (last argv)") (simp_all add: r)
qed

subsection \<open>The examples\<close>

lemmas example_defs =
  example_platform_def logging_platform_def dlerror_first_platform_def silent_platform_def argv_short_def argv_success_def
  argv_dep_missing_def argv_target_missing_def argv_symbol_absent_def argv_dummy_def
  argv_locked_def argv_dll_success_def argv_dll_dep_missing_def argv_dll_target_missing_def
  argv_dll_symbol_absent_def dependency_paths_def dependency_args_def

lemma dec_126: "dec 126 = ''126''"
  by (simp add: dec.simps)

lemma dec_127: "dec 127 = ''127''"
  by (simp add: dec.simps)

lemma all_open_success:
  "\<forall>k<length (dependency_paths argv_success).
     \<not> isl (p_dlopen example_platform k (dependency_paths argv_success ! k))"
  by (simp add: example_defs less_Suc_eq numeral_2_eq_2)

section \<open>Properties\<close>

text \<open>
  C1. With fewer than four arguments (the program name counted) \<open>main\<close> returns 12 and
  makes no call at all: the trace of the run is empty, so nothing is written to the
  error sink or anywhere else. This holds for both builds.
\<close>

theorem main_too_few_arguments:
  "length argv < 4 \<Longrightarrow> run b env argv stale code = (Exit 12, [])"
  by (simp add: run_def main_def start_def)

theorem main_too_few_arguments_witness:
  "length argv_short < 4
   \<and> run Posix example_platform argv_short (Some ''stale'') 0 = (Exit 12, [])
   \<and> run Win32 logging_platform argv_short None 0 = (Exit 12, [])"
proof -
  have h: "length argv_short < 4" by (simp add: argv_short_def)
  from main_too_few_arguments[OF h, of Posix example_platform "Some ''stale''" 0]
    main_too_few_arguments[OF h, of Win32 logging_platform None 0] h
  show ?thesis by simp
qed

text \<open>
  C2. With at least four arguments and the target library path \<open>__dummy_mirror_test\<close>,
  whatever the symbol name and the dependency arguments are, standard output receives
  exactly the target library path, one space and the last argument, \<open>main\<close> returns 0,
  and no library is opened. This holds for both builds.
\<close>

theorem mirror_mode_output:
  assumes "3 < length argv" and "argv ! 2 = ''__dummy_mirror_test''"
  shows "fst (run b env argv stale code) = Exit 0
    \<and> written Stdout (snd (run b env argv stale code)) = argv ! 2 @ '' '' @ last argv
    \<and> (\<forall>e\<in>set (snd (run b env argv stale code)). \<not> is_Dlopen e \<and> \<not> is_LoadLibrary e)"
proof -
  from assms(1) have "argv \<noteq> []" by auto
  then have "argv ! (length argv - 1) = last argv"
    by (simp add: last_conv_nth)
  with assms show ?thesis
    by (simp add: run_def main_def Let_def start_def snd_unlink printf_def emit_add)
qed

theorem mirror_mode_output_witness:
  "3 < length argv_dummy
   \<and> argv_dummy ! 2 = ''__dummy_mirror_test''
   \<and> last argv_dummy = ''do_init''
   \<and> fst (run Posix example_platform argv_dummy None 0) = Exit 0
   \<and> written Stdout (snd (run Posix example_platform argv_dummy None 0))
       = ''__dummy_mirror_test do_init''
   \<and> filter is_Dlopen (snd (run Posix example_platform argv_dummy None 0)) = []"
proof -
  have h1: "3 < length argv_dummy" by (simp add: example_defs)
  have h2: "argv_dummy ! 2 = ''__dummy_mirror_test''" by (simp add: example_defs)
  have l: "last argv_dummy = ''do_init''" by (simp add: example_defs)
  note t = mirror_mode_output[OF h1 h2, of Posix example_platform None 0]
  from t have "filter is_Dlopen (snd (run Posix example_platform argv_dummy None 0)) = []"
    by (simp add: filter_empty_conv)
  moreover from t h2 l
  have "written Stdout (snd (run Posix example_platform argv_dummy None 0))
          = ''__dummy_mirror_test do_init''"
    by simp
  ultimately show ?thesis using t h1 h2 l by blast
qed

text \<open>
  C3, as it holds. When some dependency library fails to open, \<open>main\<close> returns 9 and the
  run closes no handle. In the POSIX build (lines 61 to 64) the run ends with the failed
  \<open>dlopen\<close> of a dependency path, the calls of \<open>dlerror\<close> and \<open>error_fd\<close> in the order of the
  build, and the write of the text that the loader left for that failure to the error
  sink; the calls of \<open>dlopen\<close> before it are those of the dependency paths before it. In
  the Windows build (lines 100 to 104) the run ends with the failed \<open>LoadLibrary\<close> of a
  dependency argument, the call of \<open>GetLastError\<close>, the calls of \<open>error_fd\<close> and the write
  to the error sink of a line of the trampoline's own, which carries the error number and
  the path.
\<close>

theorem dependency_open_failure:
  assumes "3 < length argv" and "argv ! 2 \<noteq> ''__dummy_mirror_test''"
  shows
    "((\<exists>k<length (dependency_paths argv). isl (p_dlopen env k (dependency_paths argv ! k))) \<longrightarrow>
        fst (run Posix env argv stale code) = Exit 9
        \<and> (\<exists>k msg pre.
              k < length (dependency_paths argv)
              \<and> p_dlopen env k (dependency_paths argv ! k) = Inl msg
              \<and> filter is_Dlopen pre = map Dlopen (take k (dependency_paths argv))
              \<and> snd (run Posix env argv stale code) =
                  pre @ [Dlopen (dependency_paths argv ! k)] @ argument_calls env 9
                  @ [Write (error_sink env) msg])
        \<and> (\<forall>e\<in>set (snd (run Posix env argv stale code)). \<not> is_Dlclose e))
     \<and> ((\<exists>k<length (dependency_args argv).
            isl (p_load_library env k (dependency_args argv ! k))) \<longrightarrow>
        fst (run Win32 env argv stale code) = Exit 9
        \<and> (\<exists>k c pre.
              k < length (dependency_args argv)
              \<and> p_load_library env k (dependency_args argv ! k) = Inl c
              \<and> filter is_LoadLibrary pre = map LoadLibrary (take k (dependency_args argv))
              \<and> snd (run Win32 env argv stale code) =
                  pre @ [LoadLibrary (dependency_args argv ! k), GetLastError]
                  @ error_fd_calls env
                  @ [Write (error_sink env)
                       (''error: '' @ dec (unat c)
                        @ '', could not load dependent shared library ''
                        @ dependency_args argv ! k @ [CHR 0x0A])])
        \<and> (\<forall>e\<in>set (snd (run Win32 env argv stale code)). \<not> is_Dlclose e))"
  using dependency_open_failure_posix[OF assms, of env stale code]
    dependency_open_failure_win32[OF assms, of env stale code]
  by blast

theorem dependency_open_failure_witness:
  "3 < length argv_dep_missing
   \<and> argv_dep_missing ! 2 \<noteq> ''__dummy_mirror_test''
   \<and> dependency_paths argv_dep_missing = [''libdep.so'', ''libhelper.so'', ''libmissing.so'']
   \<and> isl (p_dlopen logging_platform 2 ''libmissing.so'')
   \<and> p_fputs_order logging_platform 9 = Error_fd_first
   \<and> fst (run Posix logging_platform argv_dep_missing None 0) = Exit 9
   \<and> (\<exists>pre. snd (run Posix logging_platform argv_dep_missing None 0) =
          pre @ [Dlopen ''libmissing.so'', Fopen ''/var/log/dd-trace.log'', Dlerror,
                 Write (Log_file ''/var/log/dd-trace.log'')
                   ''libmissing.so: cannot open shared object file''])
   \<and> filter is_Dlclose (snd (run Posix logging_platform argv_dep_missing None 0)) = []
   \<and> p_fputs_order dlerror_first_platform 9 = Dlerror_first
   \<and> (\<exists>pre. snd (run Posix dlerror_first_platform argv_dep_missing None 0) =
          pre @ [Dlopen ''libmissing.so'', Dlerror, Fopen ''/var/log/dd-trace.log'',
                 Write (Log_file ''/var/log/dd-trace.log'')
                   ''libmissing.so: cannot open shared object file''])
   \<and> 3 < length argv_dll_dep_missing
   \<and> argv_dll_dep_missing ! 2 \<noteq> ''__dummy_mirror_test''
   \<and> dependency_args argv_dll_dep_missing = [''dep.dll'', ''missing.dll'']
   \<and> p_load_library example_platform 1 ''missing.dll'' = Inl 126
   \<and> fst (run Win32 example_platform argv_dll_dep_missing None 0) = Exit 9
   \<and> (\<exists>pre. snd (run Win32 example_platform argv_dll_dep_missing None 0) =
          pre @ [LoadLibrary ''missing.dll'', GetLastError,
                 Write Stderr
                   (''error: 126, could not load dependent shared library missing.dll''
                    @ [CHR 0x0A])])"
proof -
  have h1: "3 < length argv_dep_missing" by (simp add: example_defs)
  have h2: "argv_dep_missing ! 2 \<noteq> ''__dummy_mirror_test''" by (simp add: example_defs)
  have ps: "dependency_paths argv_dep_missing = [''libdep.so'', ''libhelper.so'', ''libmissing.so'']"
    by (simp add: example_defs)
  have f: "isl (p_dlopen logging_platform 2 ''libmissing.so'')" by (simp add: example_defs)
  have o: "p_fputs_order logging_platform 9 = Error_fd_first" by (simp add: example_defs)
  have h3: "\<exists>k<length (dependency_paths argv_dep_missing).
              isl (p_dlopen logging_platform k (dependency_paths argv_dep_missing ! k))"
    unfolding ps using f by (intro exI[of _ 2]) simp
  note t = dependency_open_failure[OF h1 h2, where env = logging_platform and stale = None
      and code = 0, THEN conjunct1, THEN mp, OF h3]
  from t obtain k msg pre where
    k: "k < length (dependency_paths argv_dep_missing)" and
    m: "p_dlopen logging_platform k (dependency_paths argv_dep_missing ! k) = Inl msg" and
    tr: "snd (run Posix logging_platform argv_dep_missing None 0) =
           pre @ [Dlopen (dependency_paths argv_dep_missing ! k)]
           @ argument_calls logging_platform 9 @ [Write (error_sink logging_platform) msg]"
    by blast
  from k m have k2: "k = 2 \<and> msg = ''libmissing.so: cannot open shared object file''"
    unfolding ps by (auto simp: example_platform_def logging_platform_def less_Suc_eq
        numeral_3_eq_3 split: if_splits)
  from tr k2 have "snd (run Posix logging_platform argv_dep_missing None 0) =
          pre @ [Dlopen ''libmissing.so'', Fopen ''/var/log/dd-trace.log'', Dlerror,
                 Write (Log_file ''/var/log/dd-trace.log'')
                   ''libmissing.so: cannot open shared object file'']"
    by (simp add: ps argument_calls_def error_fd_calls_def error_sink_def example_platform_def
        logging_platform_def)
  then have e: "\<exists>pre. snd (run Posix logging_platform argv_dep_missing None 0) =
          pre @ [Dlopen ''libmissing.so'', Fopen ''/var/log/dd-trace.log'', Dlerror,
                 Write (Log_file ''/var/log/dd-trace.log'')
                   ''libmissing.so: cannot open shared object file'']"
    by blast
  from t have c: "filter is_Dlclose (snd (run Posix logging_platform argv_dep_missing None 0)) = []"
    by (simp add: filter_empty_conv)
  from t have x: "fst (run Posix logging_platform argv_dep_missing None 0) = Exit 9" by blast
  have f': "isl (p_dlopen dlerror_first_platform 2 ''libmissing.so'')"
    by (simp add: example_defs)
  have o': "p_fputs_order dlerror_first_platform 9 = Dlerror_first" by (simp add: example_defs)
  have h3': "\<exists>k<length (dependency_paths argv_dep_missing).
              isl (p_dlopen dlerror_first_platform k (dependency_paths argv_dep_missing ! k))"
    unfolding ps using f' by (intro exI[of _ 2]) simp
  note t' = dependency_open_failure[OF h1 h2, where env = dlerror_first_platform
      and stale = None and code = 0, THEN conjunct1, THEN mp, OF h3']
  from t' obtain k' msg' pre' where
    k': "k' < length (dependency_paths argv_dep_missing)" and
    m': "p_dlopen dlerror_first_platform k' (dependency_paths argv_dep_missing ! k') = Inl msg'" and
    tr': "snd (run Posix dlerror_first_platform argv_dep_missing None 0) =
           pre' @ [Dlopen (dependency_paths argv_dep_missing ! k')]
           @ argument_calls dlerror_first_platform 9
           @ [Write (error_sink dlerror_first_platform) msg']"
    by blast
  from k' m' have k2': "k' = 2 \<and> msg' = ''libmissing.so: cannot open shared object file''"
    unfolding ps by (auto simp: example_defs less_Suc_eq numeral_3_eq_3 split: if_splits)
  from tr' k2' have "snd (run Posix dlerror_first_platform argv_dep_missing None 0) =
          pre' @ [Dlopen ''libmissing.so'', Dlerror, Fopen ''/var/log/dd-trace.log'',
                 Write (Log_file ''/var/log/dd-trace.log'')
                   ''libmissing.so: cannot open shared object file'']"
    by (simp add: ps argument_calls_def error_fd_calls_def error_sink_def example_platform_def
        logging_platform_def dlerror_first_platform_def)
  then have e': "\<exists>pre. snd (run Posix dlerror_first_platform argv_dep_missing None 0) =
          pre @ [Dlopen ''libmissing.so'', Dlerror, Fopen ''/var/log/dd-trace.log'',
                 Write (Log_file ''/var/log/dd-trace.log'')
                   ''libmissing.so: cannot open shared object file'']"
    by blast
  have g1: "3 < length argv_dll_dep_missing" by (simp add: example_defs)
  have g2: "argv_dll_dep_missing ! 2 \<noteq> ''__dummy_mirror_test''" by (simp add: example_defs)
  have as: "dependency_args argv_dll_dep_missing = [''dep.dll'', ''missing.dll'']"
    by (simp add: example_defs)
  have l1: "p_load_library example_platform 1 ''missing.dll'' = Inl 126"
    by (simp add: example_defs)
  have g3: "\<exists>k<length (dependency_args argv_dll_dep_missing).
              isl (p_load_library example_platform k (dependency_args argv_dll_dep_missing ! k))"
    unfolding as using l1 by (intro exI[of _ 1]) simp
  note u = dependency_open_failure[OF g1 g2, where env = example_platform and stale = None
      and code = 0, THEN conjunct2, THEN mp, OF g3]
  from u obtain j c pre2 where
    j: "j < length (dependency_args argv_dll_dep_missing)" and
    n: "p_load_library example_platform j (dependency_args argv_dll_dep_missing ! j) = Inl c" and
    tr2: "snd (run Win32 example_platform argv_dll_dep_missing None 0) =
           pre2 @ [LoadLibrary (dependency_args argv_dll_dep_missing ! j), GetLastError]
           @ error_fd_calls example_platform
           @ [Write (error_sink example_platform)
                (''error: '' @ dec (unat c) @ '', could not load dependent shared library ''
                 @ dependency_args argv_dll_dep_missing ! j @ [CHR 0x0A])]"
    by blast
  from j n have j2: "j = 1 \<and> c = 126"
    unfolding as by (auto simp: example_platform_def less_Suc_eq split: if_splits)
  from tr2 j2 have "snd (run Win32 example_platform argv_dll_dep_missing None 0) =
          pre2 @ [LoadLibrary ''missing.dll'', GetLastError,
                 Write Stderr
                   (''error: 126, could not load dependent shared library missing.dll''
                    @ [CHR 0x0A])]"
    by (simp add: as error_fd_calls_def error_sink_def example_platform_def dec_126)
  then have e2: "\<exists>pre. snd (run Win32 example_platform argv_dll_dep_missing None 0) =
          pre @ [LoadLibrary ''missing.dll'', GetLastError,
                 Write Stderr
                   (''error: 126, could not load dependent shared library missing.dll''
                    @ [CHR 0x0A])]"
    by blast
  from u have y: "fst (run Win32 example_platform argv_dll_dep_missing None 0) = Exit 9"
    by blast
  from h1 h2 ps f o x e c o' e' g1 g2 as l1 y e2 show ?thesis by blast
qed

text \<open>
  C3 as stated does not hold in the Windows build: what the error sink receives there is
  not a text of the loader. The loader leaves the number 126, and the run writes the line
  that the trampoline builds around it.
\<close>

theorem win32_dependency_report_is_own_line:
  "p_load_library example_platform 1 ''missing.dll'' = Inl 126
   \<and> run Win32 example_platform argv_dll_dep_missing None 0
     = (Exit 9, [LoadLibrary ''dep.dll'', LoadLibrary ''missing.dll'', GetLastError,
                 Write Stderr
                   (''error: 126, could not load dependent shared library missing.dll''
                    @ [CHR 0x0A])])"
  by (simp add: run_def start_def main_def main_win32_def win32_loop.simps unlink_def
      LoadLibrary_call_def GetLastError_call_def GetProcAddress_call_def error_fd_def
      fputs_def emit_def calls_def example_platform_def argv_dll_dep_missing_def Let_def
      dec_126)




text \<open>
  C5, as it holds. In the POSIX build (lines 77 to 86): when the dependency libraries and
  the target library open, \<open>main\<close> calls \<open>dlerror\<close>, which clears the pending error, between
  the \<open>dlopen\<close> of the target and the one \<open>dlsym\<close> of the last argument in the target's handle.
  When that \<open>dlsym\<close> fails, \<open>main\<close> writes the loader's text to the error sink, returns 11
  and invokes nothing. When it succeeds, \<open>main\<close> does not return 11, whatever error was
  pending when the run started. In the Windows build (lines 107 to 120): when the
  dependency libraries and the target library load, the calls of the run up to the
  resolution are the artifact cleanup, the \<open>LoadLibrary\<close> of every dependency argument and
  of the target, and then at once \<open>GetProcAddress\<close> of the last argument in the target's
  handle, with no call between the last two. When \<open>GetProcAddress\<close> fails, \<open>main\<close> calls
  \<open>GetLastError\<close>, writes a line of its own with the error number, the symbol and the path
  to the error sink, returns 11 and invokes nothing. When it succeeds, \<open>main\<close> does not
  return 11.
\<close>

theorem symbol_resolution:
  assumes "3 < length argv" and "argv ! 2 \<noteq> ''__dummy_mirror_test''"
  shows
    "((\<forall>k<length (dependency_paths argv).
          \<not> isl (p_dlopen env k (dependency_paths argv ! k)))
      \<and> p_dlopen env (length (dependency_paths argv)) (argv ! 2) = Inr h \<longrightarrow>
        (\<exists>pre post. snd (run Posix env argv stale code) =
            pre @ [Dlopen (argv ! 2), Dlerror, Dlsym h (last argv)] @ post
          \<and> (\<forall>e\<in>set pre. \<not> is_Dlsym e))
        \<and> (\<forall>msg. p_dlsym env h (last argv) = Inl msg \<longrightarrow>
              fst (run Posix env argv stale code) = Exit 11
              \<and> (\<exists>pre. snd (run Posix env argv stale code) =
                    pre @ [Dlsym h (last argv), Dlerror] @ error_fd_calls env
                    @ [Write (error_sink env) msg])
              \<and> (\<forall>e\<in>set (snd (run Posix env argv stale code)). \<not> is_Invoke e))
        \<and> (\<not> isl (p_dlsym env h (last argv)) \<longrightarrow>
              fst (run Posix env argv stale code) \<noteq> Exit 11))
     \<and> ((\<forall>k<length (dependency_args argv).
            \<not> isl (p_load_library env k (dependency_args argv ! k)))
        \<and> p_load_library env (length (dependency_args argv)) (argv ! 2) = Inr h \<longrightarrow>
        (\<exists>post. snd (run Win32 env argv stale code) =
            cleanup_events (argv ! 1) @ map LoadLibrary (dependency_args argv)
            @ [LoadLibrary (argv ! 2), GetProcAddress h (last argv)] @ post)
        \<and> (\<forall>c. p_get_proc_address env h (last argv) = Inl c \<longrightarrow>
              fst (run Win32 env argv stale code) = Exit 11
              \<and> (\<exists>pre. snd (run Win32 env argv stale code) =
                    pre @ [LoadLibrary (argv ! 2), GetProcAddress h (last argv), GetLastError]
                    @ error_fd_calls env
                    @ [Write (error_sink env)
                         (''error: '' @ dec (unat c) @ '' loading symbol: '' @ last argv
                          @ '' from: '' @ argv ! 2 @ [CHR 0x0A])])
              \<and> (\<forall>e\<in>set (snd (run Win32 env argv stale code)). \<not> is_Invoke e))
        \<and> (\<not> isl (p_get_proc_address env h (last argv)) \<longrightarrow>
              fst (run Win32 env argv stale code) \<noteq> Exit 11))"
proof (rule conjI; rule impI)
  assume "(\<forall>k<length (dependency_paths argv).
          \<not> isl (p_dlopen env k (dependency_paths argv ! k)))
      \<and> p_dlopen env (length (dependency_paths argv)) (argv ! 2) = Inr h"
  then have h: "\<forall>k<length (dependency_paths argv).
          \<not> isl (p_dlopen env k (dependency_paths argv ! k))"
    "p_dlopen env (length (dependency_paths argv)) (argv ! 2) = Inr h"
    by blast+
  from symbol_resolution_posix[OF assms h, of stale code]
  show "(\<exists>pre post. snd (run Posix env argv stale code) =
            pre @ [Dlopen (argv ! 2), Dlerror, Dlsym h (last argv)] @ post
          \<and> (\<forall>e\<in>set pre. \<not> is_Dlsym e))
        \<and> (\<forall>msg. p_dlsym env h (last argv) = Inl msg \<longrightarrow>
              fst (run Posix env argv stale code) = Exit 11
              \<and> (\<exists>pre. snd (run Posix env argv stale code) =
                    pre @ [Dlsym h (last argv), Dlerror] @ error_fd_calls env
                    @ [Write (error_sink env) msg])
              \<and> (\<forall>e\<in>set (snd (run Posix env argv stale code)). \<not> is_Invoke e))
        \<and> (\<not> isl (p_dlsym env h (last argv)) \<longrightarrow>
              fst (run Posix env argv stale code) \<noteq> Exit 11)" .
next
  assume "(\<forall>k<length (dependency_args argv).
            \<not> isl (p_load_library env k (dependency_args argv ! k)))
        \<and> p_load_library env (length (dependency_args argv)) (argv ! 2) = Inr h"
  then have h: "\<forall>k<length (dependency_args argv).
            \<not> isl (p_load_library env k (dependency_args argv ! k))"
    "p_load_library env (length (dependency_args argv)) (argv ! 2) = Inr h"
    by blast+
  from symbol_resolution_win32[OF assms h, of stale code]
  show "(\<exists>post. snd (run Win32 env argv stale code) =
            cleanup_events (argv ! 1) @ map LoadLibrary (dependency_args argv)
            @ [LoadLibrary (argv ! 2), GetProcAddress h (last argv)] @ post)
        \<and> (\<forall>c. p_get_proc_address env h (last argv) = Inl c \<longrightarrow>
              fst (run Win32 env argv stale code) = Exit 11
              \<and> (\<exists>pre. snd (run Win32 env argv stale code) =
                    pre @ [LoadLibrary (argv ! 2), GetProcAddress h (last argv), GetLastError]
                    @ error_fd_calls env
                    @ [Write (error_sink env)
                         (''error: '' @ dec (unat c) @ '' loading symbol: '' @ last argv
                          @ '' from: '' @ argv ! 2 @ [CHR 0x0A])])
              \<and> (\<forall>e\<in>set (snd (run Win32 env argv stale code)). \<not> is_Invoke e))
        \<and> (\<not> isl (p_get_proc_address env h (last argv)) \<longrightarrow>
              fst (run Win32 env argv stale code) \<noteq> Exit 11)" .
qed

theorem symbol_resolution_witness:
  "3 < length argv_symbol_absent
   \<and> argv_symbol_absent ! 2 \<noteq> ''__dummy_mirror_test''
   \<and> dependency_paths argv_symbol_absent = [''libdep.so'']
   \<and> p_dlopen example_platform 0 ''libdep.so'' = Inr 100
   \<and> p_dlopen example_platform 1 ''libtarget.so'' = Inr 101
   \<and> p_dlsym example_platform 101 ''absent'' = Inl ''undefined symbol: absent''
   \<and> fst (run Posix example_platform argv_symbol_absent (Some ''stale'') 0) = Exit 11
   \<and> (\<exists>pre post. snd (run Posix example_platform argv_symbol_absent (Some ''stale'') 0) =
          pre @ [Dlopen ''libtarget.so'', Dlerror, Dlsym 101 ''absent''] @ post)
   \<and> (\<exists>pre. snd (run Posix example_platform argv_symbol_absent (Some ''stale'') 0) =
          pre @ [Dlsym 101 ''absent'', Dlerror, Write Stderr ''undefined symbol: absent''])
   \<and> filter is_Invoke (snd (run Posix example_platform argv_symbol_absent (Some ''stale'') 0)) = []
   \<and> 3 < length argv_dll_symbol_absent
   \<and> argv_dll_symbol_absent ! 2 \<noteq> ''__dummy_mirror_test''
   \<and> dependency_args argv_dll_symbol_absent = [''dep.dll'']
   \<and> p_load_library example_platform 0 ''dep.dll'' = Inr 100
   \<and> p_load_library example_platform 1 ''target.dll'' = Inr 101
   \<and> p_get_proc_address example_platform 101 ''absent'' = Inl 127
   \<and> fst (run Win32 example_platform argv_dll_symbol_absent None 0) = Exit 11
   \<and> (\<exists>post. snd (run Win32 example_platform argv_dll_symbol_absent None 0) =
          [LoadLibrary ''dep.dll'', LoadLibrary ''target.dll'', GetProcAddress 101 ''absent'']
          @ post)
   \<and> (\<exists>pre. snd (run Win32 example_platform argv_dll_symbol_absent None 0) =
          pre @ [LoadLibrary ''target.dll'', GetProcAddress 101 ''absent'', GetLastError,
                 Write Stderr
                   (''error: 127 loading symbol: absent from: target.dll'' @ [CHR 0x0A])])
   \<and> filter is_Invoke (snd (run Win32 example_platform argv_dll_symbol_absent None 0)) = []"
proof -
  let ?run = "run Posix example_platform argv_symbol_absent (Some ''stale'') 0"
  let ?wrun = "run Win32 example_platform argv_dll_symbol_absent None 0"
  have h1: "3 < length argv_symbol_absent" by (simp add: example_defs)
  have h2: "argv_symbol_absent ! 2 \<noteq> ''__dummy_mirror_test''" by (simp add: example_defs)
  have ps: "dependency_paths argv_symbol_absent = [''libdep.so'']" by (simp add: example_defs)
  have d0: "p_dlopen example_platform 0 ''libdep.so'' = Inr 100" by (simp add: example_defs)
  have d1: "p_dlopen example_platform 1 ''libtarget.so'' = Inr 101" by (simp add: example_defs)
  have sy: "p_dlsym example_platform 101 ''absent'' = Inl ''undefined symbol: absent''"
    by (simp add: example_defs)
  have l: "last argv_symbol_absent = ''absent''" and a2: "argv_symbol_absent ! 2 = ''libtarget.so''"
    by (simp_all add: example_defs)
  have h3: "\<forall>k<length (dependency_paths argv_symbol_absent).
              \<not> isl (p_dlopen example_platform k (dependency_paths argv_symbol_absent ! k))"
    unfolding ps using d0 by simp
  have h4: "p_dlopen example_platform (length (dependency_paths argv_symbol_absent))
              (argv_symbol_absent ! 2) = Inr 101"
    unfolding ps a2 using d1 by simp
  have s: "error_sink example_platform = Stderr" "error_fd_calls example_platform = []"
    by (simp_all add: error_sink_def error_fd_calls_def example_platform_def)
  note t = symbol_resolution[OF h1 h2, where env = example_platform
      and stale = "Some ''stale''" and code = 0, THEN conjunct1, THEN mp,
      OF conjI[OF h3 h4], unfolded l a2]
  from t have 1: "\<exists>pre post. snd ?run =
      pre @ [Dlopen ''libtarget.so'', Dlerror, Dlsym 101 ''absent''] @ post"
    by blast
  from t sy have 2: "\<exists>pre. snd ?run =
      pre @ [Dlsym 101 ''absent'', Dlerror, Write Stderr ''undefined symbol: absent'']"
    by (simp add: s)
  from t sy have 3: "fst ?run = Exit 11"
    by blast
  from t sy have "\<forall>e\<in>set (snd ?run). \<not> is_Invoke e"
    by blast
  then have 4: "filter is_Invoke (snd ?run) = []"
    by (simp add: filter_empty_conv)
  have g1: "3 < length argv_dll_symbol_absent" by (simp add: example_defs)
  have g2: "argv_dll_symbol_absent ! 2 \<noteq> ''__dummy_mirror_test''"
    by (simp add: example_defs)
  have as: "dependency_args argv_dll_symbol_absent = [''dep.dll'']" by (simp add: example_defs)
  have l0: "p_load_library example_platform 0 ''dep.dll'' = Inr 100" by (simp add: example_defs)
  have l1: "p_load_library example_platform 1 ''target.dll'' = Inr 101"
    by (simp add: example_defs)
  have gp: "p_get_proc_address example_platform 101 ''absent'' = Inl 127"
    by (simp add: example_defs)
  have wl: "last argv_dll_symbol_absent = ''absent''"
    and w2: "argv_dll_symbol_absent ! 2 = ''target.dll''"
    and w1: "argv_dll_symbol_absent ! 1 = []"
    by (simp_all add: example_defs)
  have g3: "\<forall>k<length (dependency_args argv_dll_symbol_absent).
              \<not> isl (p_load_library example_platform k
                       (dependency_args argv_dll_symbol_absent ! k))"
    unfolding as using l0 by simp
  have g4: "p_load_library example_platform (length (dependency_args argv_dll_symbol_absent))
              (argv_dll_symbol_absent ! 2) = Inr 101"
    unfolding as w2 using l1 by simp
  note u = symbol_resolution[OF g1 g2, where env = example_platform and stale = None
      and code = 0, THEN conjunct2, THEN mp, OF conjI[OF g3 g4], unfolded wl w2 w1 as]
  from u gp have 5: "fst ?wrun = Exit 11" by blast
  from u gp have 6: "\<exists>pre. snd ?wrun =
          pre @ [LoadLibrary ''target.dll'', GetProcAddress 101 ''absent'', GetLastError,
                 Write Stderr
                   (''error: 127 loading symbol: absent from: target.dll'' @ [CHR 0x0A])]"
    by (simp add: s dec_127)
  from u have 7: "\<exists>post. snd ?wrun =
          [LoadLibrary ''dep.dll'', LoadLibrary ''target.dll'', GetProcAddress 101 ''absent'']
          @ post"
    by (simp add: cleanup_events_def)
  from u gp have "\<forall>e\<in>set (snd ?wrun). \<not> is_Invoke e"
    by blast
  then have 8: "filter is_Invoke (snd ?wrun) = []"
    by (simp add: filter_empty_conv)
  from h1 h2 ps d0 d1 sy 1 2 3 4 g1 g2 as l0 l1 gp 5 6 7 8 show ?thesis by blast
qed

text \<open>
  C5 as stated does not hold in the Windows build. The run below makes one call after the
  other: the \<open>LoadLibrary\<close> of the target is followed at once by \<open>GetProcAddress\<close>, so
  nothing clears an error state before the symbol is resolved; and what the error sink
  receives when the symbol is absent is the trampoline's own line around the number 127,
  not a text of the loader.
\<close>

theorem win32_resolution_without_clearing:
  "run Win32 example_platform argv_dll_symbol_absent None 5
   = (Exit 11, [LoadLibrary ''dep.dll'', LoadLibrary ''target.dll'',
                GetProcAddress 101 ''absent'', GetLastError,
                Write Stderr
                  (''error: 127 loading symbol: absent from: target.dll'' @ [CHR 0x0A])])"
  by (simp add: run_def start_def main_def main_win32_def win32_loop.simps unlink_def
      LoadLibrary_call_def GetLastError_call_def GetProcAddress_call_def error_fd_def
      fputs_def emit_def calls_def example_platform_def argv_dll_symbol_absent_def Let_def
      dec_127)

text \<open>
  C6, as it holds. In the POSIX build (lines 54 to 68): after the artifact cleanup, the run
  opens the dependency paths in order and, right after each one that opens, unlinks it
  exactly when the argument immediately before it is the marker \<open>-\<close>; this goes on for the
  paths that open before the first failure, and no later call of the run is an \<open>unlink\<close>.
  So a path without a marker before it is never unlinked by the loader, a marker does not
  reach beyond the next path, and a marked path that fails to open is not unlinked. The
  second part lists the \<open>unlink\<close> calls of the whole run. In the Windows build (lines 97 to
  105): after the artifact cleanup, the run loads the dependency arguments in order, the
  marker like any other, up to the first failure, and the only \<open>unlink\<close> of the whole run is
  that of the artifact cleanup.
\<close>

theorem marker_unlinks_next_path:
  assumes "3 < length argv" and "argv ! 2 \<noteq> ''__dummy_mirror_test''"
  shows
    "(\<exists>rest. snd (run Posix env argv stale code) =
         cleanup_events (argv ! 1)
         @ concat (map spec_events
                     (take (length (loaded_handles env 0 (dependency_paths argv)))
                        (dependency_specs (dependency_args argv))))
         @ rest
       \<and> (\<forall>e\<in>set rest. \<not> is_Unlink e))
     \<and> filter is_Unlink (snd (run Posix env argv stale code)) =
         cleanup_events (argv ! 1)
         @ map (\<lambda>spec. Unlink (fst spec))
             (filter snd
                (take (length (loaded_handles env 0 (dependency_paths argv)))
                   (dependency_specs (dependency_args argv))))
     \<and> (\<exists>rest. snd (run Win32 env argv stale code) =
           cleanup_events (argv ! 1)
           @ map LoadLibrary
               (take (length (loaded_libraries env 0 (dependency_args argv)))
                  (dependency_args argv))
           @ rest
         \<and> (\<forall>e\<in>set rest. \<not> is_Unlink e))
     \<and> filter is_Unlink (snd (run Win32 env argv stale code)) = cleanup_events (argv ! 1)"
  using unlink_after_load_posix[OF assms, of env stale code] unlink_win32[OF assms, of env stale code]
  by blast

theorem marker_unlinks_next_path_witness:
  "3 < length argv_dep_missing
   \<and> argv_dep_missing ! 2 \<noteq> ''__dummy_mirror_test''
   \<and> dependency_specs (dependency_args argv_dep_missing)
       = [(''libdep.so'', True), (''libhelper.so'', False), (''libmissing.so'', True)]
   \<and> loaded_handles example_platform 0 (dependency_paths argv_dep_missing) = [100, 101]
   \<and> filter is_Unlink (snd (run Posix example_platform argv_dep_missing None 0))
       = [Unlink ''/tmp/launcher'', Unlink ''libdep.so'']
   \<and> (\<exists>rest. snd (run Posix example_platform argv_dep_missing None 0) =
          [Unlink ''/tmp/launcher'', Dlopen ''libdep.so'', Unlink ''libdep.so'',
           Dlopen ''libhelper.so''] @ rest)
   \<and> filter is_Unlink (snd (run Win32 example_platform argv_dep_missing None 0))
       = [Unlink ''/tmp/launcher'']"
proof -
  let ?run = "run Posix example_platform argv_dep_missing None 0"
  have h1: "3 < length argv_dep_missing" by (simp add: example_defs)
  have h2: "argv_dep_missing ! 2 \<noteq> ''__dummy_mirror_test''" by (simp add: example_defs)
  have sp: "dependency_specs (dependency_args argv_dep_missing)
       = [(''libdep.so'', True), (''libhelper.so'', False), (''libmissing.so'', True)]"
    by (simp add: example_defs dependency_specs_def upt_rec)
  have lh: "loaded_handles example_platform 0 (dependency_paths argv_dep_missing) = [100, 101]"
    by (simp add: example_defs)
  have tmp: "argv_dep_missing ! 1 = ''/tmp/launcher''" by (simp add: example_defs)
  note t = marker_unlinks_next_path[OF h1 h2, of example_platform None 0, unfolded sp lh tmp]
  from t have 1: "filter is_Unlink (snd ?run) = [Unlink ''/tmp/launcher'', Unlink ''libdep.so'']"
    by (simp add: cleanup_events_def)
  from t have 2: "\<exists>rest. snd ?run =
          [Unlink ''/tmp/launcher'', Dlopen ''libdep.so'', Unlink ''libdep.so'',
           Dlopen ''libhelper.so''] @ rest"
    by (auto simp add: cleanup_events_def spec_events_def)
  from t have 3: "filter is_Unlink (snd (run Win32 example_platform argv_dep_missing None 0))
       = [Unlink ''/tmp/launcher'']"
    by (simp add: cleanup_events_def)
  from h1 h2 sp lh 1 2 3 show ?thesis by blast
qed

text \<open>
  C6 as stated does not hold in the Windows build: the marker \<open>-\<close> sets no flag. It is
  itself passed to \<open>LoadLibrary\<close>, and the path after it is loaded and not unlinked.
\<close>

theorem win32_marker_is_loaded:
  "run Win32 example_platform
     [''trampoline'', ''/tmp/launcher'', ''target.dll'', ''-'', ''dep.dll'', ''do_init''] None 0
   = (Exit 0, [Unlink ''/tmp/launcher'', LoadLibrary ''-'', LoadLibrary ''dep.dll'',
               LoadLibrary ''target.dll'', GetProcAddress 102 ''do_init'', Invoke 4096])"
  by (simp add: run_def start_def main_def main_win32_def win32_loop.simps unlink_def
      LoadLibrary_call_def GetLastError_call_def GetProcAddress_call_def error_fd_def
      emit_def calls_def example_platform_def Let_def)

text \<open>
  C7, as it holds. When the dependency libraries and the target open and the symbol
  resolves to \<open>f\<close>, the run invokes \<open>f\<close> and nothing else, once, and when that call returns
  \<open>main\<close> returns 0. In the POSIX build (lines 87 to 95) the run then ends with the
  invocation, the \<open>dlclose\<close> of the target handle, and the \<open>dlclose\<close> of every dependency
  handle in load order, and no handle is closed before. In the Windows build (lines 97
  to 124) the calls of the whole run are the artifact cleanup, the \<open>LoadLibrary\<close> of every
  dependency argument and of the target, \<open>GetProcAddress\<close> and the invocation, with which
  the run ends: no handle is released, before the invocation or after it.
\<close>

theorem invoke_and_release:
  assumes "3 < length argv" and "argv ! 2 \<noteq> ''__dummy_mirror_test''"
  shows
    "((\<forall>k<length (dependency_paths argv).
          \<not> isl (p_dlopen env k (dependency_paths argv ! k)))
      \<and> p_dlopen env (length (dependency_paths argv)) (argv ! 2) = Inr h
      \<and> p_dlsym env h (last argv) = Inr f \<longrightarrow>
        filter is_Invoke (snd (run Posix env argv stale code)) = [Invoke f]
        \<and> (p_invoke env f \<longrightarrow>
              fst (run Posix env argv stale code) = Exit 0
              \<and> (\<exists>pre. snd (run Posix env argv stale code) =
                    pre @ [Invoke f, Dlclose (Some h)]
                    @ map (\<lambda>d. Dlclose (Some d))
                        (loaded_handles env 0 (dependency_paths argv))
                  \<and> (\<forall>e\<in>set pre. \<not> is_Dlclose e)))
        \<and> (\<forall>k<length (dependency_paths argv).
              p_dlopen env k (dependency_paths argv ! k)
              = Inr (loaded_handles env 0 (dependency_paths argv) ! k)))
     \<and> ((\<forall>k<length (dependency_args argv).
            \<not> isl (p_load_library env k (dependency_args argv ! k)))
        \<and> p_load_library env (length (dependency_args argv)) (argv ! 2) = Inr h
        \<and> p_get_proc_address env h (last argv) = Inr f \<longrightarrow>
        filter is_Invoke (snd (run Win32 env argv stale code)) = [Invoke f]
        \<and> (p_invoke env f \<longrightarrow>
              run Win32 env argv stale code =
                (Exit 0,
                 cleanup_events (argv ! 1) @ map LoadLibrary (dependency_args argv)
                 @ [LoadLibrary (argv ! 2), GetProcAddress h (last argv), Invoke f]))
        \<and> (\<forall>e\<in>set (snd (run Win32 env argv stale code)). \<not> is_Dlclose e))"
proof (rule conjI; rule impI)
  assume "(\<forall>k<length (dependency_paths argv).
          \<not> isl (p_dlopen env k (dependency_paths argv ! k)))
      \<and> p_dlopen env (length (dependency_paths argv)) (argv ! 2) = Inr h
      \<and> p_dlsym env h (last argv) = Inr f"
  then have h: "\<forall>k<length (dependency_paths argv).
          \<not> isl (p_dlopen env k (dependency_paths argv ! k))"
    "p_dlopen env (length (dependency_paths argv)) (argv ! 2) = Inr h"
    "p_dlsym env h (last argv) = Inr f"
    by blast+
  from invoke_and_release_posix[OF assms h, of stale code]
  show "filter is_Invoke (snd (run Posix env argv stale code)) = [Invoke f]
        \<and> (p_invoke env f \<longrightarrow>
              fst (run Posix env argv stale code) = Exit 0
              \<and> (\<exists>pre. snd (run Posix env argv stale code) =
                    pre @ [Invoke f, Dlclose (Some h)]
                    @ map (\<lambda>d. Dlclose (Some d))
                        (loaded_handles env 0 (dependency_paths argv))
                  \<and> (\<forall>e\<in>set pre. \<not> is_Dlclose e)))
        \<and> (\<forall>k<length (dependency_paths argv).
              p_dlopen env k (dependency_paths argv ! k)
              = Inr (loaded_handles env 0 (dependency_paths argv) ! k))" .
next
  assume "(\<forall>k<length (dependency_args argv).
            \<not> isl (p_load_library env k (dependency_args argv ! k)))
        \<and> p_load_library env (length (dependency_args argv)) (argv ! 2) = Inr h
        \<and> p_get_proc_address env h (last argv) = Inr f"
  then have h: "\<forall>k<length (dependency_args argv).
            \<not> isl (p_load_library env k (dependency_args argv ! k))"
    "p_load_library env (length (dependency_args argv)) (argv ! 2) = Inr h"
    "p_get_proc_address env h (last argv) = Inr f"
    by blast+
  from invoke_win32[OF assms h, of stale code]
  show "filter is_Invoke (snd (run Win32 env argv stale code)) = [Invoke f]
        \<and> (p_invoke env f \<longrightarrow>
              run Win32 env argv stale code =
                (Exit 0,
                 cleanup_events (argv ! 1) @ map LoadLibrary (dependency_args argv)
                 @ [LoadLibrary (argv ! 2), GetProcAddress h (last argv), Invoke f]))
        \<and> (\<forall>e\<in>set (snd (run Win32 env argv stale code)). \<not> is_Dlclose e)" .
qed

theorem invoke_and_release_witness:
  "3 < length argv_success
   \<and> argv_success ! 2 \<noteq> ''__dummy_mirror_test''
   \<and> dependency_paths argv_success = [''libdep.so'', ''libhelper.so'']
   \<and> loaded_handles example_platform 0 (dependency_paths argv_success) = [100, 101]
   \<and> p_dlopen example_platform 2 ''libtarget.so'' = Inr 102
   \<and> p_dlsym example_platform 102 ''do_init'' = Inr 4096
   \<and> p_invoke example_platform 4096
   \<and> filter is_Invoke (snd (run Posix example_platform argv_success None 0)) = [Invoke 4096]
   \<and> fst (run Posix example_platform argv_success None 0) = Exit 0
   \<and> (\<exists>pre. snd (run Posix example_platform argv_success None 0) =
          pre @ [Invoke 4096, Dlclose (Some 102), Dlclose (Some 100), Dlclose (Some 101)]
        \<and> filter is_Dlclose pre = [])
   \<and> 3 < length argv_dll_success
   \<and> argv_dll_success ! 2 \<noteq> ''__dummy_mirror_test''
   \<and> dependency_args argv_dll_success = [''dep.dll'', ''helper.dll'']
   \<and> p_load_library example_platform 2 ''target.dll'' = Inr 102
   \<and> p_get_proc_address example_platform 102 ''do_init'' = Inr 4096
   \<and> filter is_Invoke (snd (run Win32 example_platform argv_dll_success None 0))
       = [Invoke 4096]
   \<and> run Win32 example_platform argv_dll_success None 0
       = (Exit 0, [LoadLibrary ''dep.dll'', LoadLibrary ''helper.dll'',
                   LoadLibrary ''target.dll'', GetProcAddress 102 ''do_init'', Invoke 4096])
   \<and> filter is_Dlclose (snd (run Win32 example_platform argv_dll_success None 0)) = []"
proof -
  let ?run = "run Posix example_platform argv_success None 0"
  let ?wrun = "run Win32 example_platform argv_dll_success None 0"
  have h1: "3 < length argv_success" by (simp add: example_defs)
  have h2: "argv_success ! 2 \<noteq> ''__dummy_mirror_test''" by (simp add: example_defs)
  have ps: "dependency_paths argv_success = [''libdep.so'', ''libhelper.so'']"
    by (simp add: example_defs)
  have lh: "loaded_handles example_platform 0 (dependency_paths argv_success) = [100, 101]"
    by (simp add: example_defs)
  have h4: "p_dlopen example_platform (length (dependency_paths argv_success)) (argv_success ! 2)
              = Inr 102"
    by (simp add: example_defs)
  have d2: "p_dlopen example_platform 2 ''libtarget.so'' = Inr 102" by (simp add: example_defs)
  have h5: "p_dlsym example_platform 102 (last argv_success) = Inr 4096"
    by (simp add: example_defs)
  have sy: "p_dlsym example_platform 102 ''do_init'' = Inr 4096" by (simp add: example_defs)
  have inv: "p_invoke example_platform 4096" by (simp add: example_defs)
  note t = invoke_and_release[OF h1 h2, where env = example_platform and stale = None
      and code = 0, THEN conjunct1, THEN mp, OF conjI[OF all_open_success conjI[OF h4 h5]],
      unfolded lh]
  from t have 1: "filter is_Invoke (snd ?run) = [Invoke 4096]" by blast
  from t inv have 2: "fst ?run = Exit 0" by blast
  from t inv have 3: "\<exists>pre. snd ?run =
          pre @ [Invoke 4096, Dlclose (Some 102), Dlclose (Some 100), Dlclose (Some 101)]
        \<and> filter is_Dlclose pre = []"
    by (simp add: filter_empty_conv)
  have g1: "3 < length argv_dll_success" by (simp add: example_defs)
  have g2: "argv_dll_success ! 2 \<noteq> ''__dummy_mirror_test''" by (simp add: example_defs)
  have as: "dependency_args argv_dll_success = [''dep.dll'', ''helper.dll'']"
    by (simp add: example_defs)
  have l2: "p_load_library example_platform 2 ''target.dll'' = Inr 102"
    by (simp add: example_defs)
  have gp: "p_get_proc_address example_platform 102 ''do_init'' = Inr 4096"
    by (simp add: example_defs)
  have wl: "last argv_dll_success = ''do_init''"
    and w2: "argv_dll_success ! 2 = ''target.dll''"
    and w1: "argv_dll_success ! 1 = []"
    by (simp_all add: example_defs)
  have g3: "\<forall>k<length (dependency_args argv_dll_success).
              \<not> isl (p_load_library example_platform k (dependency_args argv_dll_success ! k))"
    by (simp add: example_defs less_Suc_eq numeral_2_eq_2)
  have g4: "p_load_library example_platform (length (dependency_args argv_dll_success))
              (argv_dll_success ! 2) = Inr 102"
    by (simp add: example_defs)
  have g5: "p_get_proc_address example_platform 102 (last argv_dll_success) = Inr 4096"
    by (simp add: example_defs)
  note u = invoke_and_release[OF g1 g2, where env = example_platform and stale = None
      and code = 0, THEN conjunct2, THEN mp, OF conjI[OF g3 conjI[OF g4 g5]],
      unfolded wl w2 w1 as]
  from u have 4: "filter is_Invoke (snd ?wrun) = [Invoke 4096]" by blast
  from u inv have 5: "?wrun = (Exit 0, [LoadLibrary ''dep.dll'', LoadLibrary ''helper.dll'',
                   LoadLibrary ''target.dll'', GetProcAddress 102 ''do_init'', Invoke 4096])"
    by (simp add: cleanup_events_def)
  from u have 6: "filter is_Dlclose (snd ?wrun) = []"
    by (simp add: filter_empty_conv)
  from h1 h2 ps lh d2 sy inv 1 2 3 g1 g2 as l2 gp 4 5 6 show ?thesis by blast
qed

text \<open>
  C7 as stated does not hold in the Windows build: after the invocation returns, \<open>main\<close>
  returns 0 and releases neither the target handle nor any dependency handle.
\<close>

theorem win32_handles_not_released:
  "run Win32 example_platform argv_dll_success None 0
   = (Exit 0, [LoadLibrary ''dep.dll'', LoadLibrary ''helper.dll'', LoadLibrary ''target.dll'',
               GetProcAddress 102 ''do_init'', Invoke 4096])
   \<and> filter is_Dlclose (snd (run Win32 example_platform argv_dll_success None 0)) = []"
  by (simp add: run_def start_def main_def main_win32_def win32_loop.simps unlink_def
      LoadLibrary_call_def GetLastError_call_def GetProcAddress_call_def error_fd_def
      emit_def calls_def example_platform_def argv_dll_success_def Let_def)

text \<open>
  C8. With at least four arguments, on both builds: a run is the run with the empty
  temp path, preceded by the \<open>unlink\<close> of the temp path when that is not empty; the run
  with the empty temp path does not start with an \<open>unlink\<close>; and the outcome and the
  calls of the run do not depend on what any \<open>unlink\<close> returns.
\<close>

theorem temp_file_cleanup:
  assumes "3 < length argv"
  shows "fst (run b env argv stale code) = fst (run b env (argv[1 := []]) stale code)
    \<and> snd (run b env argv stale code) =
        (if argv ! 1 \<noteq> [] then [Unlink (argv ! 1)] else [])
        @ snd (run b env (argv[1 := []]) stale code)
    \<and> (\<forall>p rest. snd (run b env (argv[1 := []]) stale code) \<noteq> Unlink p # rest)
    \<and> run b (env\<lparr>p_unlink := u\<rparr>) argv stale code = run b env argv stale code"
proof -
  from assms have len: "3 < length (argv[1 := []])" by simp
  have upd: "after_cleanup b env (argv[1 := []]) = after_cleanup b env argv"
    by (rule after_cleanup_update[OF assms]) simp
  have nil: "cleanup_events ((argv[1 := []]) ! 1) = []"
    using assms by (simp add: cleanup_events_def)
  have r0: "run b env (argv[1 := []]) stale code = after_cleanup b env argv"
    unfolding run_after_cleanup[OF len] upd nil by simp
  show ?thesis
    unfolding r0 run_after_cleanup[OF assms] after_cleanup_unlink
    by (simp add: after_cleanup_head cleanup_events_def)
qed

theorem temp_file_cleanup_witness:
  "3 < length argv_locked
   \<and> argv_locked ! 1 = ''/tmp/locked''
   \<and> p_unlink example_platform 0 ''/tmp/locked'' = - 1
   \<and> fst (run Posix example_platform argv_locked None 0)
       = fst (run Posix example_platform (argv_locked[1 := []]) None 0)
   \<and> snd (run Posix example_platform argv_locked None 0)
       = Unlink ''/tmp/locked'' # snd (run Posix example_platform (argv_locked[1 := []]) None 0)
   \<and> run Posix (example_platform\<lparr>p_unlink := (\<lambda>k path. 0)\<rparr>) argv_locked None 0
       = run Posix example_platform argv_locked None 0"
proof -
  have h1: "3 < length argv_locked" by (simp add: example_defs)
  have tmp: "argv_locked ! 1 = ''/tmp/locked''" by (simp add: example_defs)
  have u: "p_unlink example_platform 0 ''/tmp/locked'' = - 1" by (simp add: example_defs)
  note t = temp_file_cleanup[OF h1, of Posix example_platform None 0 "\<lambda>k path. 0"]
  from t tmp have "snd (run Posix example_platform argv_locked None 0)
       = Unlink ''/tmp/locked'' # snd (run Posix example_platform (argv_locked[1 := []]) None 0)"
    by simp
  with t h1 tmp u show ?thesis by blast
qed

text \<open>
  C9. With at least four arguments, on both builds, every symbol resolution of a run
  asks for the last argument; and when the dependency libraries and the target library
  load, the run makes exactly one symbol resolution, that of the last argument in the
  target's handle, however many dependency arguments there are. No marker deletes a file
  in the Windows build, where the only \<open>unlink\<close> is that of the artifact cleanup; and in the
  POSIX build a marker \<open>-\<close> as the last dependency argument changes nothing: the run is the
  run without it.
\<close>

theorem last_argument_is_symbol:
  "(3 < length argv \<longrightarrow>
      (\<forall>e\<in>set (snd (run b env argv stale code)).
         (\<forall>h s. e = Dlsym h s \<longrightarrow> s = last argv)
         \<and> (\<forall>h s. e = GetProcAddress h s \<longrightarrow> s = last argv))
      \<and> filter is_Unlink (snd (run Win32 env argv stale code)) = cleanup_events (argv ! 1)
      \<and> (argv ! 2 \<noteq> ''__dummy_mirror_test''
          \<and> (\<forall>k<length (dependency_paths argv).
                \<not> isl (p_dlopen env k (dependency_paths argv ! k)))
          \<and> p_dlopen env (length (dependency_paths argv)) (argv ! 2) = Inr h \<longrightarrow>
            filter is_Dlsym (snd (run Posix env argv stale code)) = [Dlsym h (last argv)])
      \<and> (argv ! 2 \<noteq> ''__dummy_mirror_test''
          \<and> (\<forall>k<length (dependency_args argv).
                \<not> isl (p_load_library env k (dependency_args argv ! k)))
          \<and> p_load_library env (length (dependency_args argv)) (argv ! 2) = Inr h \<longrightarrow>
            filter is_GetProcAddress (snd (run Win32 env argv stale code))
            = [GetProcAddress h (last argv)]))
   \<and> run Posix env (prog # tmp # lib # deps @ [''-'', name]) stale code
     = run Posix env (prog # tmp # lib # deps @ [name]) stale code"
proof -
  have "filter is_Unlink (snd (run Win32 env argv stale code)) = cleanup_events (argv ! 1)"
    if argc: "3 < length argv"
  proof (cases "argv ! 2 = ''__dummy_mirror_test''")
    case True
    then show ?thesis
      by (simp add: run_after_cleanup[OF argc] after_cleanup_def filter_Unlink_cleanup)
  next
    case False
    with unlink_win32[OF argc False, of env stale code] show ?thesis by blast
  qed
  moreover
  have "filter is_Dlsym (snd (run Posix env argv stale code)) = [Dlsym h (last argv)]"
    if "3 < length argv" and "argv ! 2 \<noteq> ''__dummy_mirror_test''
          \<and> (\<forall>k<length (dependency_paths argv).
                \<not> isl (p_dlopen env k (dependency_paths argv ! k)))
          \<and> p_dlopen env (length (dependency_paths argv)) (argv ! 2) = Inr h"
    using that resolves_last_argument_posix[of argv env h stale code] by blast
  moreover
  have "filter is_GetProcAddress (snd (run Win32 env argv stale code))
        = [GetProcAddress h (last argv)]"
    if "3 < length argv" and "argv ! 2 \<noteq> ''__dummy_mirror_test''
          \<and> (\<forall>k<length (dependency_args argv).
                \<not> isl (p_load_library env k (dependency_args argv ! k)))
          \<and> p_load_library env (length (dependency_args argv)) (argv ! 2) = Inr h"
    using that resolves_last_argument_win32[of argv env h stale code] by blast
  ultimately show ?thesis
    using symbol_name_is_last_both[of argv b env stale code prog tmp lib deps name]
    by blast
qed

theorem last_argument_is_symbol_witness:
  "3 < length argv_success
   \<and> last argv_success = ''do_init''
   \<and> argv_success ! 2 \<noteq> ''__dummy_mirror_test''
   \<and> p_dlopen example_platform (length (dependency_paths argv_success)) (argv_success ! 2)
       = Inr 102
   \<and> filter is_Dlsym (snd (run Posix example_platform argv_success None 0))
       = [Dlsym 102 ''do_init'']
   \<and> list_all (\<lambda>e. \<forall>h s. e = Dlsym h s \<longrightarrow> s = ''do_init'')
       (snd (run Posix example_platform argv_success None 0))
   \<and> filter is_Unlink (snd (run Win32 example_platform argv_success None 0))
       = [Unlink ''/tmp/launcher'']
   \<and> 3 < length argv_dll_success
   \<and> last argv_dll_success = ''do_init''
   \<and> argv_dll_success ! 2 \<noteq> ''__dummy_mirror_test''
   \<and> p_load_library example_platform (length (dependency_args argv_dll_success))
         (argv_dll_success ! 2) = Inr 102
   \<and> filter is_GetProcAddress (snd (run Win32 example_platform argv_dll_success None 0))
       = [GetProcAddress 102 ''do_init'']
   \<and> run Posix example_platform
         (''trampoline'' # ''/tmp/launcher'' # ''libtarget.so'' # [''libdep.so''] @ [''-'', ''do_init''])
         None 0
     = run Posix example_platform
         (''trampoline'' # ''/tmp/launcher'' # ''libtarget.so'' # [''libdep.so''] @ [''do_init''])
         None 0"
proof -
  have h1: "3 < length argv_success" by (simp add: example_defs)
  have h2: "argv_success ! 2 \<noteq> ''__dummy_mirror_test''" by (simp add: example_defs)
  have l: "last argv_success = ''do_init''" by (simp add: example_defs)
  have tmp: "argv_success ! 1 = ''/tmp/launcher''" by (simp add: example_defs)
  have h4: "p_dlopen example_platform (length (dependency_paths argv_success)) (argv_success ! 2)
              = Inr 102"
    by (simp add: example_defs)
  note t = last_argument_is_symbol[of argv_success Posix example_platform None 0 102
      "''trampoline''" "''/tmp/launcher''" "''libtarget.so''" "[''libdep.so'']" "''do_init''",
      unfolded tmp]
  from t h1 have 1: "list_all (\<lambda>e. \<forall>h s. e = Dlsym h s \<longrightarrow> s = ''do_init'')
       (snd (run Posix example_platform argv_success None 0))"
    by (simp add: list_all_iff l)
  from t h1
  have 2: "filter is_Unlink (snd (run Win32 example_platform argv_success None 0))
          = [Unlink ''/tmp/launcher'']"
    by (simp add: cleanup_events_def)
  from t h1 h2 all_open_success h4
  have 3: "filter is_Dlsym (snd (run Posix example_platform argv_success None 0))
       = [Dlsym 102 ''do_init'']"
    unfolding l by blast
  from t have 4: "run Posix example_platform
         (''trampoline'' # ''/tmp/launcher'' # ''libtarget.so'' # [''libdep.so''] @ [''-'', ''do_init''])
         None 0
     = run Posix example_platform
         (''trampoline'' # ''/tmp/launcher'' # ''libtarget.so'' # [''libdep.so''] @ [''do_init''])
         None 0"
    by blast
  have g1: "3 < length argv_dll_success" by (simp add: example_defs)
  have g2: "argv_dll_success ! 2 \<noteq> ''__dummy_mirror_test''" by (simp add: example_defs)
  have wl: "last argv_dll_success = ''do_init''" by (simp add: example_defs)
  have g3: "\<forall>k<length (dependency_args argv_dll_success).
              \<not> isl (p_load_library example_platform k (dependency_args argv_dll_success ! k))"
    by (simp add: example_defs less_Suc_eq numeral_2_eq_2)
  have g4: "p_load_library example_platform (length (dependency_args argv_dll_success))
              (argv_dll_success ! 2) = Inr 102"
    by (simp add: example_defs)
  note u = last_argument_is_symbol[of argv_dll_success Win32 example_platform None 0 102
      "''trampoline''" "''/tmp/launcher''" "''libtarget.so''" "[''libdep.so'']" "''do_init''"]
  from u g1 g2 g3 g4
  have 5: "filter is_GetProcAddress (snd (run Win32 example_platform argv_dll_success None 0))
       = [GetProcAddress 102 ''do_init'']"
    unfolding wl by blast
  from h1 l h2 h4 3 1 2 g1 wl g2 g4 5 4 show ?thesis by blast
qed

text \<open>
  C10. With at least four arguments and the target library path \<open>__dummy_mirror_test\<close>,
  on both builds, the calls of the run are the \<open>unlink\<close> of the temp path, when that is
  not empty, and then the write to standard output: no library is opened and no
  dependency path is unlinked, whatever the dependency arguments are.
\<close>

theorem mirror_mode_frame:
  assumes "3 < length argv" and "argv ! 2 = ''__dummy_mirror_test''"
  shows "snd (run b env argv stale code) =
           (if argv ! 1 \<noteq> [] then [Unlink (argv ! 1)] else [])
           @ [Write Stdout (''__dummy_mirror_test'' @ '' '' @ last argv)]"
proof -
  from assms(1) have "argv \<noteq> []" by auto
  then have "argv ! (length argv - 1) = last argv"
    by (simp add: last_conv_nth)
  with assms show ?thesis
    by (simp add: run_def main_def Let_def start_def snd_unlink printf_def emit_add)
qed

theorem mirror_mode_frame_witness:
  "3 < length argv_dummy
   \<and> argv_dummy ! 2 = ''__dummy_mirror_test''
   \<and> snd (run Win32 example_platform argv_dummy None 0)
       = [Unlink ''/tmp/launcher'', Write Stdout ''__dummy_mirror_test do_init'']"
proof -
  have h1: "3 < length argv_dummy" by (simp add: example_defs)
  have h2: "argv_dummy ! 2 = ''__dummy_mirror_test''" by (simp add: example_defs)
  have l: "last argv_dummy = ''do_init''" and tmp: "argv_dummy ! 1 = ''/tmp/launcher''"
    by (simp_all add: example_defs)
  from mirror_mode_frame[OF h1 h2, of Win32 example_platform None 0] h1 h2 l tmp
  show ?thesis by simp
qed

end
